theory Spec2Isabelle
  imports
    Complex_Main
    "HOL-Library.Log_Nat"
    "HOL-Library.Monad_Syntax"
    "HOL-Library.Char_ord"
    "HOL-Library.List_Lexorder"
begin

section \<open>Numbers, dates and the reference store\<close>

text \<open>
  The services compute with JavaScript numbers, which are IEEE 754 double-precision
  floats. A finite double is a rational, so numbers are values of type \<open>rat\<close>, and every
  arithmetic operation returns the exact result rounded to the nearest double, ties going
  to the even significand: \<open>fl\<close>. For a positive \<open>x\<close> with \<open>2^e \<le> x < 2^(e+1)\<close> the
  doubles around \<open>x\<close> are the multiples of \<open>2^(e-52)\<close>.

  The exponent range of doubles is not modelled. The time values of \<open>Date\<close> objects are
  whole milliseconds of magnitude at most \<open>8.64 * 10^15\<close>, hence exact doubles, and the
  counts are lengths of arrays; no operation of the services on such inputs comes near
  the overflow or underflow thresholds.
\<close>

definition pow2 :: "int \<Rightarrow> rat" where
  "pow2 k = (if k \<ge> 0 then 2 ^ nat k else 1 / 2 ^ nat (- k))"

definition exponente :: "rat \<Rightarrow> int" where
  "exponente x =
     (case quotient_of x of (p, q) \<Rightarrow>
        (let k = bitlen p - bitlen q in if pow2 k \<le> x then k else k - 1))"

definition redondeo_par :: "rat \<Rightarrow> int" where
  "redondeo_par r =
     (let f = \<lfloor>r\<rfloor>; d = r - of_int f
      in if d < 1 / 2 then f
         else if d > 1 / 2 then f + 1
         else if even f then f else f + 1)"

definition fl :: "rat \<Rightarrow> rat" where
  "fl x =
     (if x = 0 then 0
      else (let a = \<bar>x\<bar>; s = pow2 (exponente a - 52)
            in sgn x * of_int (redondeo_par (a / s)) * s))"

text \<open>
  The operators \<open>+\<close>, \<open>-\<close>, \<open>*\<close> and \<open>/\<close> on numbers. A JavaScript division by zero
  does not raise; it yields \<open>NaN\<close> or an infinity. \<open>js_div\<close> returns \<open>None\<close> for that
  non-finite outcome and is used at the one division of the services that is not written
  under a test of its divisor; \<open>js_quot\<close> is the division at the other places, where the
  divisor has just been tested to be positive or is a literal.
\<close>

definition js_add :: "rat \<Rightarrow> rat \<Rightarrow> rat" where
  "js_add a b = fl (a + b)"

definition js_sub :: "rat \<Rightarrow> rat \<Rightarrow> rat" where
  "js_sub a b = fl (a - b)"

definition js_mul :: "rat \<Rightarrow> rat \<Rightarrow> rat" where
  "js_mul a b = fl (a * b)"

definition js_quot :: "rat \<Rightarrow> rat \<Rightarrow> rat" where
  "js_quot a b = fl (a / b)"

definition js_div :: "rat \<Rightarrow> rat \<Rightarrow> rat option" where
  "js_div a b = (if b = 0 then None else Some (fl (a / b)))"

text \<open>
  \<open>Math.round\<close> returns the integer nearest to its argument, a tie going up, without
  any rounding error of its own: \<open>\<lfloor>x + 1/2\<rfloor>\<close>. The services repeat the expression
  \<open>Math.round(v * 100) / 100\<close> inline wherever they report a figure; it is \<open>round2_js\<close>.
\<close>

definition Math_round :: "rat \<Rightarrow> int" where
  "Math_round x = \<lfloor>x + 1 / 2\<rfloor>"

definition round2_js :: "rat \<Rightarrow> rat" where
  "round2_js v = js_quot (of_int (Math_round (js_mul v 100))) 100"

text \<open>The rows of the store. Attributes the services never read are left out.\<close>

datatype estado = en_proceso | finalizada

record Division =
  d_id :: int
  d_nombre :: string

record Municipio =
  m_id :: int
  m_nombre :: string

record Tarea =
  t_id :: int
  t_nombre :: string
  t_divisionId :: int
  t_fechaInicio :: int
  t_fechaCulminacion :: int
  t_estado :: estado

record Entrega =
  e_id :: int
  e_tareaId :: int
  e_municipioId :: int
  e_fechaHoraEntrega :: int
  e_calificacion :: "int option"

record store =
  divisiones :: "Division list"
  municipios :: "Municipio list"
  tareas :: "Tarea list"
  entregas :: "Entrega list"

text \<open>The queries the services issue (Sequelize \<open>findAll\<close>, \<open>findByPk\<close>, \<open>Op.between\<close>).\<close>

definition Municipio_findAll_nombre_ASC :: "store \<Rightarrow> Municipio list" where
  "Municipio_findAll_nombre_ASC st = sort_key m_nombre (municipios st)"

definition Division_findAll_nombre_ASC :: "store \<Rightarrow> Division list" where
  "Division_findAll_nombre_ASC st = sort_key d_nombre (divisiones st)"

definition Municipio_findByPk :: "store \<Rightarrow> int \<Rightarrow> Municipio option" where
  "Municipio_findByPk st k = find (\<lambda>m. m_id m = k) (municipios st)"

definition Op_between :: "int \<Rightarrow> int \<Rightarrow> int \<Rightarrow> bool" where
  "Op_between a b x = (a \<le> x \<and> x \<le> b)"

text \<open>Decimal printing of an integer, as \<open>toString\<close> and template literals do.\<close>

fun digitos :: "nat \<Rightarrow> string" where
  "digitos n =
     (if n < 10 then [char_of (48 + n)]
      else digitos (n div 10) @ [char_of (48 + n mod 10)])"

definition toString :: "int \<Rightarrow> string" where
  "toString n = (if n < 0 then CHR ''-'' # digitos (nat (- n)) else digitos (nat n))"

definition padStart :: "nat \<Rightarrow> char \<Rightarrow> string \<Rightarrow> string" where
  "padStart n c s = replicate (n - length s) c @ s"

section \<open>Advanced evaluation service\<close>

record TaskEvaluation =
  te_tareaId :: int
  te_tareaNombre :: string
  te_entregado :: bool
  te_cantidadEntregas :: nat
  te_puntualidad :: rat
  te_calidad :: rat
  te_primeraEntrega :: "int option"
  te_fechaLimite :: int

record ComprehensiveEvaluation =
  ce_municipioId :: int
  ce_municipioNombre :: string
  ce_totalTareas :: nat
  ce_tareasCompletadas :: nat
  ce_porcentajeCobertura :: rat
  ce_entregasPuntuales :: nat
  ce_entregasTardias :: nat
  ce_porcentajePuntualidad :: rat
  ce_promedioPuntualidad :: rat
  ce_totalEntregas :: nat
  ce_promedioEntregasPorTarea :: rat
  ce_entregasCalificadas :: nat
  ce_promedioCalidad :: rat
  ce_puntuacionFinal :: rat
  ce_detallesTareas :: "TaskEvaluation list"

text \<open>
  \<open>calcularPuntualidad\<close>: the two early returns come before the division, in the
  source's order.
\<close>

definition calcularPuntualidad :: "int \<Rightarrow> int \<Rightarrow> int \<Rightarrow> rat option" where
  "calcularPuntualidad fechaEntrega fechaInicio fechaLimite =
     (let tiempoTotal = js_sub (of_int fechaLimite) (of_int fechaInicio);
          tiempoTranscurrido = js_sub (of_int fechaEntrega) (of_int fechaInicio)
      in if tiempoTranscurrido \<le> 0 then Some 100
         else if tiempoTranscurrido \<ge> tiempoTotal then Some 0
         else do {
           cociente \<leftarrow> js_div tiempoTranscurrido tiempoTotal;
           let porcentaje = js_sub 100 (js_mul cociente 100);
           Some (round2_js porcentaje)
         })"

text \<open>
  The optional filter argument. A \<open>divisionId\<close> of \<open>0\<close> is falsy in JavaScript and
  adds no condition; the date condition is added only when both bounds are given.
\<close>

record filtros =
  f_fechaInicio :: "int option"
  f_fechaFin :: "int option"
  f_divisionId :: "int option"

definition whereClause :: "filtros option \<Rightarrow> Tarea \<Rightarrow> bool" where
  "whereClause fo t =
     (case fo of
        None \<Rightarrow> True
      | Some f \<Rightarrow>
          (case f_divisionId f of
             None \<Rightarrow> True
           | Some d \<Rightarrow> d \<noteq> 0 \<longrightarrow> t_divisionId t = d) \<and>
          (case (f_fechaInicio f, f_fechaFin f) of
             (Some a, Some b) \<Rightarrow>
               Op_between a b (t_fechaInicio t) \<or>
               Op_between a b (t_fechaCulminacion t) \<or>
               (t_fechaInicio t \<le> a \<and> t_fechaCulminacion t \<ge> b)
           | _ \<Rightarrow> True))"

text \<open>
  \<open>Tarea.findAll\<close> with the unit's deliveries attached to each task (a left join:
  tasks without deliveries stay), newest start first; tasks with the same start keep the
  order of the table, and so do the deliveries of a task.
\<close>

definition tareas_evaluadas :: "store \<Rightarrow> int \<Rightarrow> filtros option \<Rightarrow> (Tarea \<times> Entrega list) list" where
  "tareas_evaluadas st municipioId fo =
     map (\<lambda>t. (t, filter (\<lambda>e. e_tareaId e = t_id t \<and> e_municipioId e = municipioId) (entregas st)))
       (sort_key (\<lambda>t. - t_fechaInicio t) (filter (whereClause fo) (tareas st)))"

text \<open>The variables of the two nested loops.\<close>

record variables_tarea =
  puntualidadTarea :: rat
  calidadTarea :: rat
  primeraEntrega :: "int option"
  calificacionesCount :: nat

record variables =
  tareasCompletadas :: nat
  entregasPuntuales :: nat
  entregasTardias :: nat
  totalEntregas :: nat
  sumaPuntualidad :: rat
  sumaCalidad :: rat
  entregasCalificadas :: nat
  detallesTareas :: "TaskEvaluation list"

definition paso_entrega ::
  "Tarea \<Rightarrow> Entrega \<Rightarrow> variables_tarea \<times> variables \<Rightarrow> (variables_tarea \<times> variables) option" where
  "paso_entrega tarea entrega s =
     (case s of (vt, v) \<Rightarrow> do {
        let vt1 = (case primeraEntrega vt of
                     None \<Rightarrow> vt\<lparr>primeraEntrega := Some (e_fechaHoraEntrega entrega)\<rparr>
                   | Some p \<Rightarrow>
                       if e_fechaHoraEntrega entrega < p
                       then vt\<lparr>primeraEntrega := Some (e_fechaHoraEntrega entrega)\<rparr>
                       else vt);
        puntualidad \<leftarrow> calcularPuntualidad (e_fechaHoraEntrega entrega)
                         (t_fechaInicio tarea) (t_fechaCulminacion tarea);
        let vt2 = vt1\<lparr>puntualidadTarea := js_add (puntualidadTarea vt1) puntualidad\<rparr>;
        let v1 = v\<lparr>sumaPuntualidad := js_add (sumaPuntualidad v) puntualidad\<rparr>;
        let v2 = (if e_fechaHoraEntrega entrega \<le> t_fechaCulminacion tarea
                  then v1\<lparr>entregasPuntuales := entregasPuntuales v1 + 1\<rparr>
                  else v1\<lparr>entregasTardias := entregasTardias v1 + 1\<rparr>);
        Some (case e_calificacion entrega of
                None \<Rightarrow> (vt2, v2)
              | Some c \<Rightarrow>
                  (vt2\<lparr>calidadTarea := js_add (calidadTarea vt2) (of_int c),
                       calificacionesCount := calificacionesCount vt2 + 1\<rparr>,
                   v2\<lparr>sumaCalidad := js_add (sumaCalidad v2) (of_int c),
                      entregasCalificadas := entregasCalificadas v2 + 1\<rparr>))
      })"

fun bucle_entregas ::
  "Tarea \<Rightarrow> Entrega list \<Rightarrow> variables_tarea \<times> variables \<Rightarrow> (variables_tarea \<times> variables) option" where
  "bucle_entregas tarea [] s = Some s"
| "bucle_entregas tarea (entrega # resto) s =
     (case paso_entrega tarea entrega s of
        None \<Rightarrow> None
      | Some s' \<Rightarrow> bucle_entregas tarea resto s')"

definition paso_tarea :: "Tarea \<times> Entrega list \<Rightarrow> variables \<Rightarrow> variables option" where
  "paso_tarea fila v =
     (case fila of (tarea, entregas_tarea) \<Rightarrow> do {
        let cantidadEntregas = length entregas_tarea;
        let entregado = cantidadEntregas > 0;
        let v1 = (if entregado
                  then v\<lparr>tareasCompletadas := tareasCompletadas v + 1,
                         totalEntregas := totalEntregas v + cantidadEntregas\<rparr>
                  else v);
        (vt, v2) \<leftarrow> bucle_entregas tarea entregas_tarea
                      (\<lparr>puntualidadTarea = 0, calidadTarea = 0,
                        primeraEntrega = None, calificacionesCount = 0\<rparr>, v1);
        let vt1 = (if cantidadEntregas > 0
                   then (let vp = vt\<lparr>puntualidadTarea :=
                                        js_quot (puntualidadTarea vt) (of_nat cantidadEntregas)\<rparr>
                         in if calificacionesCount vp > 0
                            then vp\<lparr>calidadTarea :=
                                       js_quot (calidadTarea vp) (of_nat (calificacionesCount vp))\<rparr>
                            else vp)
                   else vt);
        Some (v2\<lparr>detallesTareas := detallesTareas v2 @
                [\<lparr>te_tareaId = t_id tarea,
                  te_tareaNombre = t_nombre tarea,
                  te_entregado = entregado,
                  te_cantidadEntregas = cantidadEntregas,
                  te_puntualidad =
                    round2_js (puntualidadTarea vt1),
                  te_calidad =
                    round2_js (calidadTarea vt1),
                  te_primeraEntrega = primeraEntrega vt1,
                  te_fechaLimite = t_fechaCulminacion tarea\<rparr>]\<rparr>)
      })"

fun bucle_tareas :: "(Tarea \<times> Entrega list) list \<Rightarrow> variables \<Rightarrow> variables option" where
  "bucle_tareas [] v = Some v"
| "bucle_tareas (fila # resto) v =
     (case paso_tarea fila v of
        None \<Rightarrow> None
      | Some v' \<Rightarrow> bucle_tareas resto v')"

text \<open>
  What a call can end in besides a result: the thrown \<open>Error\<close> with its message, and
  \<open>NumeroNoFinito\<close>, which stands for a run in which a division by zero put \<open>NaN\<close> or
  an infinity into the result.
\<close>

datatype error = Error string | NumeroNoFinito

definition getMunicipalityComprehensiveEvaluation ::
  "store \<Rightarrow> int \<Rightarrow> filtros option \<Rightarrow> error + ComprehensiveEvaluation" where
  "getMunicipalityComprehensiveEvaluation st municipioId fo =
     (case Municipio_findByPk st municipioId of
        None \<Rightarrow> Inl (Error (''Municipio con ID '' @ toString municipioId @ '' no encontrado''))
      | Some municipio \<Rightarrow>
          (let filas = tareas_evaluadas st municipioId fo;
               totalTareas = length filas
           in case bucle_tareas filas
                     \<lparr>tareasCompletadas = 0, entregasPuntuales = 0, entregasTardias = 0,
                      totalEntregas = 0, sumaPuntualidad = 0, sumaCalidad = 0,
                      entregasCalificadas = 0, detallesTareas = []\<rparr> of
                None \<Rightarrow> Inl NumeroNoFinito
              | Some v \<Rightarrow>
                  (let porcentajeCobertura =
                         (if totalTareas > 0
                          then js_mul (js_quot (of_nat (tareasCompletadas v)) (of_nat totalTareas)) 100
                          else 0);
                       porcentajePuntualidad =
                         (if totalEntregas v > 0
                          then js_mul (js_quot (of_nat (entregasPuntuales v))
                                         (of_nat (totalEntregas v))) 100
                          else 0);
                       promedioPuntualidad =
                         (if totalEntregas v > 0
                          then js_quot (sumaPuntualidad v) (of_nat (totalEntregas v))
                          else 0);
                       promedioEntregasPorTarea =
                         (if tareasCompletadas v > 0
                          then js_quot (of_nat (totalEntregas v)) (of_nat (tareasCompletadas v))
                          else 0);
                       promedioCalidad =
                         (if entregasCalificadas v > 0
                          then js_quot (sumaCalidad v) (of_nat (entregasCalificadas v))
                          else 0);
                       puntuacionFinal =
                         js_add
                           (js_add
                              (js_add (js_mul porcentajeCobertura (fl (40 / 100)))
                                 (js_mul promedioPuntualidad (fl (30 / 100))))
                              (js_mul promedioCalidad (fl (20 / 100))))
                           (js_mul (min (js_mul promedioEntregasPorTarea 20) 100) (fl (10 / 100)))
                   in Inr \<lparr>ce_municipioId = municipioId,
                           ce_municipioNombre = m_nombre municipio,
                           ce_totalTareas = totalTareas,
                           ce_tareasCompletadas = tareasCompletadas v,
                           ce_porcentajeCobertura =
                             round2_js porcentajeCobertura,
                           ce_entregasPuntuales = entregasPuntuales v,
                           ce_entregasTardias = entregasTardias v,
                           ce_porcentajePuntualidad =
                             round2_js porcentajePuntualidad,
                           ce_promedioPuntualidad =
                             round2_js promedioPuntualidad,
                           ce_totalEntregas = totalEntregas v,
                           ce_promedioEntregasPorTarea =
                             round2_js promedioEntregasPorTarea,
                           ce_entregasCalificadas = entregasCalificadas v,
                           ce_promedioCalidad =
                             round2_js promedioCalidad,
                           ce_puntuacionFinal =
                             round2_js puntuacionFinal,
                           ce_detallesTareas = detallesTareas v\<rparr>)))"

section \<open>Performance service\<close>

record MunicipalityPerformance =
  mp_municipioId :: int
  mp_municipioNombre :: string
  mp_totalTareas :: nat
  mp_tareasCompletadas :: nat
  mp_porcentajeCompletado :: rat
  mp_actividadesCompletadas :: "string list"
  mp_color :: string

definition CHART_COLORS :: "string list" where
  "CHART_COLORS =
     [''#3B82F6'', ''#10B981'', ''#F59E0B'', ''#EF4444'', ''#8B5CF6'',
      ''#EC4899'', ''#14B8A6'', ''#F97316'', ''#6366F1'', ''#84CC16'',
      ''#06B6D4'', ''#F43F5E'', ''#A855F7'', ''#22C55E'', ''#FBBF24'']"

definition generateColor :: "nat \<Rightarrow> string" where
  "generateColor index = CHART_COLORS ! (index mod length CHART_COLORS)"

text \<open>
  \<open>Entrega.findAll\<close> for one unit with the task of each delivery attached;
  \<open>entrega.tarea\<close> is absent when no task row has the delivery's \<open>tareaId\<close>.
\<close>

definition Entrega_findAll_con_tarea :: "store \<Rightarrow> int \<Rightarrow> (Entrega \<times> Tarea option) list" where
  "Entrega_findAll_con_tarea st municipioId =
     map (\<lambda>e. (e, find (\<lambda>t. t_id t = e_tareaId e) (tareas st)))
       (filter (\<lambda>e. e_municipioId e = municipioId) (entregas st))"

text \<open>
  The body of the \<open>forEach\<close>. The JavaScript \<open>Set\<close> keeps insertion order and holds
  no duplicates; it is the list \<open>uniqueTaskIds\<close>, its \<open>size\<close> the length.
\<close>

definition registrar_entrega ::
  "Entrega \<times> Tarea option \<Rightarrow> int list \<times> string list \<Rightarrow> int list \<times> string list" where
  "registrar_entrega fila s =
     (case s of (uniqueTaskIds, actividadesCompletadas) \<Rightarrow>
        (case snd fila of
           None \<Rightarrow> s
         | Some tarea \<Rightarrow>
             if t_id tarea \<notin> set uniqueTaskIds
             then (uniqueTaskIds @ [t_id tarea], actividadesCompletadas @ [t_nombre tarea])
             else s))"

definition desempeno_municipio :: "store \<Rightarrow> nat \<Rightarrow> nat \<times> Municipio \<Rightarrow> MunicipalityPerformance" where
  "desempeno_municipio st totalTareas im =
     (case im of (i, municipio) \<Rightarrow>
        (let filas = Entrega_findAll_con_tarea st (m_id municipio);
             (uniqueTaskIds, actividadesCompletadas) = fold registrar_entrega filas ([], []);
             completadas = length uniqueTaskIds;
             porcentajeCompletado =
               (if totalTareas > 0
                then js_quot
                       (of_int (Math_round
                          (js_mul (js_quot (of_nat completadas) (of_nat totalTareas)) 10000))) 100
                else 0)
         in \<lparr>mp_municipioId = m_id municipio,
             mp_municipioNombre = m_nombre municipio,
             mp_totalTareas = totalTareas,
             mp_tareasCompletadas = completadas,
             mp_porcentajeCompletado = porcentajeCompletado,
             mp_actividadesCompletadas = actividadesCompletadas,
             mp_color = generateColor i\<rparr>))"

definition getMunicipalityPerformanceData :: "store \<Rightarrow> MunicipalityPerformance list" where
  "getMunicipalityPerformanceData st =
     (let lista = Municipio_findAll_nombre_ASC st;
          totalTareas = length (tareas st)
      in map (desempeno_municipio st totalTareas) (enumerate 0 lista))"

subsection \<open>Monthly breakdown\<close>

text \<open>
  \<open>new Date(year, monthIndex, day, hours, minutes, seconds)\<close> after the language
  standard (\<open>MakeDay\<close>, \<open>MakeTime\<close>, \<open>MakeDate\<close>): a month index outside \<open>0..11\<close> carries
  into the year, day \<open>0\<close> is the last day of the month before, the milliseconds default
  to \<open>0\<close>, and a year in \<open>0..99\<close> means \<open>1900 + year\<close>. The server's local time is taken
  as the reference calendar with no offset.
\<close>

definition DayFromYear :: "int \<Rightarrow> int" where
  "DayFromYear y =
     365 * (y - 1970) + (y - 1969) div 4 - (y - 1901) div 100 + (y - 1601) div 400"

definition InLeapYear :: "int \<Rightarrow> bool" where
  "InLeapYear y = ((y mod 4 = 0 \<and> y mod 100 \<noteq> 0) \<or> y mod 400 = 0)"

definition dias_antes_del_mes :: "int \<Rightarrow> nat \<Rightarrow> int" where
  "dias_antes_del_mes y mn =
     [0, 31, 59, 90, 120, 151, 181, 212, 243, 273, 304, 334] ! mn +
     (if InLeapYear y \<and> mn \<ge> 2 then 1 else 0)"

definition MakeDay :: "int \<Rightarrow> int \<Rightarrow> int \<Rightarrow> int" where
  "MakeDay year month date =
     (let ym = year + month div 12;
          mn = nat (month mod 12)
      in DayFromYear ym + dias_antes_del_mes ym mn + date - 1)"

definition MakeTime :: "int \<Rightarrow> int \<Rightarrow> int \<Rightarrow> int \<Rightarrow> int" where
  "MakeTime hour minute sec ms = hour * 3600000 + minute * 60000 + sec * 1000 + ms"

definition new_Date :: "int \<Rightarrow> int \<Rightarrow> int \<Rightarrow> int \<Rightarrow> int \<Rightarrow> int \<Rightarrow> int" where
  "new_Date year monthIndex day hours minutes seconds =
     (let yr = (if 0 \<le> year \<and> year \<le> 99 then 1900 + year else year)
      in MakeDay yr monthIndex day * 86400000 + MakeTime hours minutes seconds 0)"

definition startDate :: "int \<Rightarrow> int \<Rightarrow> int" where
  "startDate year month = new_Date year (month - 1) 1 0 0 0"

definition endDate :: "int \<Rightarrow> int \<Rightarrow> int" where
  "endDate year month = new_Date year month 0 23 59 59"

record DivisionPerformanceData =
  dp_divisionId :: int
  dp_divisionNombre :: string
  dp_tareasAsignadas :: nat
  dp_tareasCompletadas :: nat
  dp_porcentaje :: rat

record MunicipalityMonthlyPerformance =
  mm_municipioId :: int
  mm_municipioNombre :: string
  mm_divisionData :: "DivisionPerformanceData list"
  mm_totalTareasAsignadas :: nat
  mm_totalTareasCompletadas :: nat
  mm_porcentajeTotal :: rat

record MonthlyPerformanceData =
  mes :: string
  md_municipios :: "MunicipalityMonthlyPerformance list"

text \<open>The month's tasks, each with all its deliveries attached.\<close>

definition Tarea_findAll_mes :: "store \<Rightarrow> int \<Rightarrow> int \<Rightarrow> (Tarea \<times> Entrega list) list" where
  "Tarea_findAll_mes st year month =
     map (\<lambda>t. (t, filter (\<lambda>e. e_tareaId e = t_id t) (entregas st)))
       (filter (\<lambda>t.
            Op_between (startDate year month) (endDate year month) (t_fechaInicio t) \<or>
            Op_between (startDate year month) (endDate year month) (t_fechaCulminacion t) \<or>
            (t_fechaInicio t \<le> startDate year month \<and>
             t_fechaCulminacion t \<ge> endDate year month))
          (tareas st))"

definition contar_completadas :: "Municipio \<Rightarrow> (Tarea \<times> Entrega list) list \<Rightarrow> nat" where
  "contar_completadas municipio tareasDivision =
     fold (\<lambda>fila n.
             if list_ex (\<lambda>e. e_municipioId e = m_id municipio) (snd fila) then n + 1 else n)
       tareasDivision 0"

definition paso_division ::
  "(Tarea \<times> Entrega list) list \<Rightarrow> Municipio \<Rightarrow> Division \<Rightarrow>
   DivisionPerformanceData list \<times> nat \<times> nat \<Rightarrow> DivisionPerformanceData list \<times> nat \<times> nat" where
  "paso_division tareas_mes municipio division s =
     (case s of (divisionData, totalTareasAsignadas, totalTareasCompletadas) \<Rightarrow>
        (let tareasDivision = filter (\<lambda>fila. t_divisionId (fst fila) = d_id division) tareas_mes;
             tareasAsignadas = length tareasDivision;
             completadas = contar_completadas municipio tareasDivision
         in if tareasAsignadas > 0
            then (let porcentaje = js_mul (js_quot (of_nat completadas) (of_nat tareasAsignadas)) 100
                  in (divisionData @
                        [\<lparr>dp_divisionId = d_id division,
                          dp_divisionNombre = d_nombre division,
                          dp_tareasAsignadas = tareasAsignadas,
                          dp_tareasCompletadas = completadas,
                          dp_porcentaje =
                            round2_js porcentaje\<rparr>],
                      totalTareasAsignadas + tareasAsignadas,
                      totalTareasCompletadas + completadas))
            else s))"

definition desempeno_mensual ::
  "(Tarea \<times> Entrega list) list \<Rightarrow> Division list \<Rightarrow> Municipio \<Rightarrow> MunicipalityMonthlyPerformance" where
  "desempeno_mensual tareas_mes lista_divisiones municipio =
     (case fold (paso_division tareas_mes municipio) lista_divisiones ([], 0, 0) of
        (divisionData, totalTareasAsignadas, totalTareasCompletadas) \<Rightarrow>
          (let porcentajeTotal =
                 (if totalTareasAsignadas > 0
                  then js_mul (js_quot (of_nat totalTareasCompletadas)
                                 (of_nat totalTareasAsignadas)) 100
                  else 0)
           in \<lparr>mm_municipioId = m_id municipio,
               mm_municipioNombre = m_nombre municipio,
               mm_divisionData = divisionData,
               mm_totalTareasAsignadas = totalTareasAsignadas,
               mm_totalTareasCompletadas = totalTareasCompletadas,
               mm_porcentajeTotal =
                 round2_js porcentajeTotal\<rparr>))"

definition getMonthlyPerformance :: "store \<Rightarrow> int \<Rightarrow> int \<Rightarrow> MonthlyPerformanceData" where
  "getMonthlyPerformance st year month =
     (let tareas_mes = Tarea_findAll_mes st year month;
          lista_municipios = Municipio_findAll_nombre_ASC st;
          lista_divisiones = Division_findAll_nombre_ASC st
      in \<lparr>mes = toString year @ ''-'' @ padStart 2 (CHR ''0'') (toString month),
          md_municipios = map (desempeno_mensual tareas_mes lista_divisiones) lista_municipios\<rparr>)"

section \<open>Task lifecycle updater\<close>

text \<open>
  \<open>Tarea.update\<close> sets \<open>estado\<close> to \<open>finalizada\<close> on the rows its \<open>where\<close> selects and
  reports how many rows it touched.
\<close>

definition Tarea_update_finalizada :: "(Tarea \<Rightarrow> bool) \<Rightarrow> Tarea list \<Rightarrow> nat \<times> Tarea list" where
  "Tarea_update_finalizada cond ts =
     (length (filter cond ts),
      map (\<lambda>t. if cond t then t\<lparr>t_estado := finalizada\<rparr> else t) ts)"

datatype consola = LogHora int | LogActualizadas nat | LogError

text \<open>
  \<open>actualizarEstadoTareas\<close> is declared \<open>Promise<void>\<close>: the first component of the
  result is what the promise resolves to, \<open>None\<close> for \<open>undefined\<close>. \<open>ahora\<close> is the
  clock reading \<open>new Date()\<close>; \<open>falla\<close> says that the store rejects the update, which
  the \<open>catch\<close> turns into a console line. The file holds two revisions; the later one
  (\<open>Op.lte\<close>, with the extra log line) keeps the name.
\<close>

definition actualizarEstadoTareas_anterior ::
  "bool \<Rightarrow> int \<Rightarrow> store \<Rightarrow> nat option \<times> store \<times> consola list" where
  "actualizarEstadoTareas_anterior falla ahora st =
     (if falla then (None, st, [LogError])
      else (case Tarea_update_finalizada
                   (\<lambda>t. t_estado t = en_proceso \<and> t_fechaCulminacion t < ahora) (tareas st) of
              (afectadas, ts) \<Rightarrow>
                (None, st\<lparr>tareas := ts\<rparr>,
                 if afectadas > 0 then [LogActualizadas afectadas] else [])))"

definition actualizarEstadoTareas ::
  "bool \<Rightarrow> int \<Rightarrow> store \<Rightarrow> nat option \<times> store \<times> consola list" where
  "actualizarEstadoTareas falla ahora st =
     (if falla then (None, st, [LogHora ahora, LogError])
      else (case Tarea_update_finalizada
                   (\<lambda>t. t_estado t = en_proceso \<and> t_fechaCulminacion t \<le> ahora) (tareas st) of
              (afectadas, ts) \<Rightarrow>
                (None, st\<lparr>tareas := ts\<rparr>,
                 LogHora ahora # (if afectadas > 0 then [LogActualizadas afectadas] else []))))"

section \<open>Notions of the specification\<close>

text \<open>
  \<open>round2\<close>: exact rounding to two decimal places, a half going up.
\<close>

definition round2 :: "rat \<Rightarrow> rat" where
  "round2 v = of_int \<lfloor>v * 100 + 1 / 2\<rfloor> / 100"

text \<open>
  The punctuality score of one delivery as the specification words it, in exact
  arithmetic, the three cases read in order.
\<close>

definition puntualidad_spec :: "int \<Rightarrow> int \<Rightarrow> int \<Rightarrow> rat" where
  "puntualidad_spec submittedAt startTime deadlineTime =
     (let elapsed = submittedAt - startTime;
          window = deadlineTime - startTime
      in if elapsed \<le> 0 then 100
         else if elapsed \<ge> window then 0
         else round2 (100 - of_int elapsed / of_int window * 100))"

text \<open>
  The first row seen for each key, in the order of first appearance: what remains of a
  list when every later row with an already seen key is dropped.
\<close>

primrec primeras_por :: "('a \<Rightarrow> 'k) \<Rightarrow> 'a list \<Rightarrow> 'a list" where
  "primeras_por f [] = []"
| "primeras_por f (x # xs) = x # filter (\<lambda>y. f y \<noteq> f x) (primeras_por f xs)"

text \<open>
  The tasks a unit has delivered against, one per delivery, in query order; and
  referential integrity of the store: every delivery points at a stored task (the
  schema declares \<open>tareaId\<close> as a foreign key into \<open>tareas\<close>).
\<close>

definition tareas_entregadas :: "store \<Rightarrow> int \<Rightarrow> Tarea list" where
  "tareas_entregadas st municipioId = List.map_filter snd (Entrega_findAll_con_tarea st municipioId)"


text \<open>
  The month window of the specification ends at \<open>23:59:59.999\<close> of the last day, that
  is \<open>999\<close> ms after the \<open>endDate\<close> the service builds; a task belongs to the window
  when its start or its deadline falls in it or the task spans it.
\<close>

definition windowEnd_spec :: "int \<Rightarrow> int \<Rightarrow> int" where
  "windowEnd_spec year month = endDate year month + 999"

definition en_ventana_spec :: "int \<Rightarrow> int \<Rightarrow> Tarea \<Rightarrow> bool" where
  "en_ventana_spec year month t =
     ((startDate year month \<le> t_fechaInicio t \<and> t_fechaInicio t \<le> windowEnd_spec year month) \<or>
      (startDate year month \<le> t_fechaCulminacion t \<and>
       t_fechaCulminacion t \<le> windowEnd_spec year month) \<or>
      (t_fechaInicio t \<le> startDate year month \<and>
       t_fechaCulminacion t \<ge> windowEnd_spec year month))"

text \<open>The condition of the update: a task in progress whose deadline has been reached.\<close>

definition vencida :: "int \<Rightarrow> Tarea \<Rightarrow> bool" where
  "vencida ahora t = (t_estado t = en_proceso \<and> t_fechaCulminacion t \<le> ahora)"

text \<open>
  The per-unit aggregates of the specification, over the tasks in scope with the unit's
  deliveries attached: every (task, delivery) pair in scope, the punctuality score of a
  pair, the quality ratings present, and the four metrics before their own rounding. A
  total that a loop builds with \<open>+=\<close> is rounded at each step, in the order of the
  loop: \<open>suma_doble\<close>.
\<close>

definition pares :: "(Tarea \<times> Entrega list) list \<Rightarrow> (Tarea \<times> Entrega) list" where
  "pares filas = concat (map (\<lambda>fila. map (Pair (fst fila)) (snd fila)) filas)"

definition puntaje :: "Tarea \<times> Entrega \<Rightarrow> rat" where
  "puntaje te =
     (case calcularPuntualidad (e_fechaHoraEntrega (snd te)) (t_fechaInicio (fst te))
             (t_fechaCulminacion (fst te)) of
        Some p \<Rightarrow> p
      | None \<Rightarrow> 0)"

definition calificaciones :: "(Tarea \<times> Entrega) list \<Rightarrow> int list" where
  "calificaciones ps = List.map_filter (\<lambda>te. e_calificacion (snd te)) ps"

definition completadas :: "(Tarea \<times> Entrega list) list \<Rightarrow> nat" where
  "completadas filas = length (filter (\<lambda>fila. snd fila \<noteq> []) filas)"

definition suma_doble :: "rat list \<Rightarrow> rat" where
  "suma_doble xs = foldl js_add 0 xs"

definition coveragePct :: "(Tarea \<times> Entrega list) list \<Rightarrow> rat" where
  "coveragePct filas =
     (if filas = [] then 0
      else js_mul (js_quot (of_nat (completadas filas)) (of_nat (length filas))) 100)"

definition avgPunctualityScore :: "(Tarea \<times> Entrega list) list \<Rightarrow> rat" where
  "avgPunctualityScore filas =
     (if pares filas = [] then 0
      else js_quot (suma_doble (map puntaje (pares filas))) (of_nat (length (pares filas))))"

definition avgQuantity :: "(Tarea \<times> Entrega list) list \<Rightarrow> rat" where
  "avgQuantity filas =
     (if completadas filas = 0 then 0
      else js_quot (of_nat (length (pares filas))) (of_nat (completadas filas)))"

definition avgQuality :: "(Tarea \<times> Entrega list) list \<Rightarrow> rat" where
  "avgQuality filas =
     (if calificaciones (pares filas) = [] then 0
      else js_quot (suma_doble (map of_int (calificaciones (pares filas))))
             (of_nat (length (calificaciones (pares filas)))))"

text \<open>
  The weighted sum as the service writes it, \<open>a * 0.40 + b * 0.30 + c * 0.20 +
  min (d * 20) 100 * 0.10\<close>, evaluated from the left; a decimal literal is the double
  nearest to it.
\<close>

definition suma_ponderada :: "rat \<Rightarrow> rat \<Rightarrow> rat \<Rightarrow> rat \<Rightarrow> rat" where
  "suma_ponderada cobertura puntualidad calidad cantidad =
     js_add
       (js_add
          (js_add (js_mul cobertura (fl (40 / 100))) (js_mul puntualidad (fl (30 / 100))))
          (js_mul calidad (fl (20 / 100))))
       (js_mul (min (js_mul cantidad 20) 100) (fl (10 / 100)))"

section \<open>Example stores\<close>

text \<open>
  A small store: unit Alpha, two tasks, two deliveries against the first task only.
\<close>

definition store_alpha :: store where
  "store_alpha =
     \<lparr>divisiones = [\<lparr>d_id = 1, d_nombre = ''Deportes''\<rparr>],
      municipios = [\<lparr>m_id = 1, m_nombre = ''Alpha''\<rparr>],
      tareas = [\<lparr>t_id = 1, t_nombre = ''Task 1'', t_divisionId = 1, t_fechaInicio = 0,
                 t_fechaCulminacion = 100, t_estado = en_proceso\<rparr>,
                \<lparr>t_id = 2, t_nombre = ''Task 2'', t_divisionId = 1, t_fechaInicio = 0,
                 t_fechaCulminacion = 100, t_estado = en_proceso\<rparr>],
      entregas = [\<lparr>e_id = 1, e_tareaId = 1, e_municipioId = 1, e_fechaHoraEntrega = 50,
                   e_calificacion = None\<rparr>,
                  \<lparr>e_id = 2, e_tareaId = 1, e_municipioId = 1, e_fechaHoraEntrega = 60,
                   e_calificacion = Some 80\<rparr>]\<rparr>"

definition desempeno_alpha :: MunicipalityPerformance where
  "desempeno_alpha =
     \<lparr>mp_municipioId = 1, mp_municipioNombre = ''Alpha'', mp_totalTareas = 2,
      mp_tareasCompletadas = 1, mp_porcentajeCompletado = 50,
      mp_actividadesCompletadas = [''Task 1''], mp_color = ''#3B82F6''\<rparr>"

text \<open>
  A store with unit Alpha and \<open>800\<close> tasks, of which Alpha delivered against the first
  \<open>57\<close>.
\<close>

definition store_800 :: store where
  "store_800 =
     \<lparr>divisiones = [\<lparr>d_id = 1, d_nombre = ''Deportes''\<rparr>],
      municipios = [\<lparr>m_id = 1, m_nombre = ''Alpha''\<rparr>],
      tareas = map (\<lambda>k. \<lparr>t_id = k, t_nombre = ''Task'', t_divisionId = 1, t_fechaInicio = 0,
                          t_fechaCulminacion = 100, t_estado = en_proceso\<rparr>) [1..800],
      entregas = map (\<lambda>k. \<lparr>e_id = k, e_tareaId = k, e_municipioId = 1,
                            e_fechaHoraEntrega = 50, e_calificacion = None\<rparr>) [1..57]\<rparr>"

text \<open>
  A store for January 2024 (timestamps in ms since the epoch): two divisions, of which
  only the first owns a task in the month; the task starts on 5 January and unit 1
  delivered against it.
\<close>

definition store_enero :: store where
  "store_enero =
     \<lparr>divisiones = [\<lparr>d_id = 1, d_nombre = ''Deportes''\<rparr>, \<lparr>d_id = 2, d_nombre = ''Cultura''\<rparr>],
      municipios = [\<lparr>m_id = 1, m_nombre = ''Alpha''\<rparr>],
      tareas = [\<lparr>t_id = 1, t_nombre = ''Task 1'', t_divisionId = 1,
                 t_fechaInicio = 1704412800000, t_fechaCulminacion = 1705276800000,
                 t_estado = en_proceso\<rparr>,
                \<lparr>t_id = 2, t_nombre = ''Task 2'', t_divisionId = 2,
                 t_fechaInicio = 1709251200000, t_fechaCulminacion = 1710000000000,
                 t_estado = en_proceso\<rparr>],
      entregas = [\<lparr>e_id = 1, e_tareaId = 1, e_municipioId = 1,
                   e_fechaHoraEntrega = 1704844800000, e_calificacion = None\<rparr>]\<rparr>"

definition mensual_alpha :: MunicipalityMonthlyPerformance where
  "mensual_alpha =
     \<lparr>mm_municipioId = 1, mm_municipioNombre = ''Alpha'',
      mm_divisionData =
        [\<lparr>dp_divisionId = 1, dp_divisionNombre = ''Deportes'', dp_tareasAsignadas = 1,
          dp_tareasCompletadas = 1, dp_porcentaje = 100\<rparr>],
      mm_totalTareasAsignadas = 1, mm_totalTareasCompletadas = 1, mm_porcentajeTotal = 100\<rparr>"

text \<open>
  A task that starts on 31 January 2024 at \<open>23:59:59.500\<close> and ends on 4 February.
\<close>

definition tarea_ultimo_segundo :: Tarea where
  "tarea_ultimo_segundo =
     \<lparr>t_id = 7, t_nombre = ''Cierre'', t_divisionId = 1,
      t_fechaInicio = 1706745599500, t_fechaCulminacion = 1707004800000,
      t_estado = en_proceso\<rparr>"

definition store_ultimo_segundo :: store where
  "store_ultimo_segundo =
     \<lparr>divisiones = [\<lparr>d_id = 1, d_nombre = ''Deportes''\<rparr>],
      municipios = [\<lparr>m_id = 1, m_nombre = ''Alpha''\<rparr>],
      tareas = [tarea_ultimo_segundo],
      entregas = []\<rparr>"

text \<open>
  A store with unit Alpha and three tasks running from \<open>0\<close> to \<open>100\<close>; Alpha made one
  delivery, against task 1, after the deadline and without a quality rating.
\<close>

definition store_tercio :: store where
  "store_tercio =
     \<lparr>divisiones = [\<lparr>d_id = 1, d_nombre = ''Deportes''\<rparr>],
      municipios = [\<lparr>m_id = 1, m_nombre = ''Alpha''\<rparr>],
      tareas = [\<lparr>t_id = 1, t_nombre = ''Task 1'', t_divisionId = 1, t_fechaInicio = 0,
                 t_fechaCulminacion = 100, t_estado = en_proceso\<rparr>,
                \<lparr>t_id = 2, t_nombre = ''Task 2'', t_divisionId = 1, t_fechaInicio = 0,
                 t_fechaCulminacion = 100, t_estado = en_proceso\<rparr>,
                \<lparr>t_id = 3, t_nombre = ''Task 3'', t_divisionId = 1, t_fechaInicio = 0,
                 t_fechaCulminacion = 100, t_estado = en_proceso\<rparr>],
      entregas = [\<lparr>e_id = 1, e_tareaId = 1, e_municipioId = 1, e_fechaHoraEntrega = 200,
                   e_calificacion = None\<rparr>]\<rparr>"

definition store_una_tarea :: store where
  "store_una_tarea =
     \<lparr>divisiones = [\<lparr>d_id = 1, d_nombre = ''Deportes''\<rparr>],
      municipios = [\<lparr>m_id = 1, m_nombre = ''Alpha''\<rparr>],
      tareas = [\<lparr>t_id = 1, t_nombre = ''Task 1'', t_divisionId = 1, t_fechaInicio = 0,
                 t_fechaCulminacion = 10000, t_estado = en_proceso\<rparr>],
      entregas = [\<lparr>e_id = 1, e_tareaId = 1, e_municipioId = 1, e_fechaHoraEntrega = 45,
                   e_calificacion = None\<rparr>]\<rparr>"

definition solo_division_5 :: filtros where
  "solo_division_5 = \<lparr>f_fechaInicio = None, f_fechaFin = None, f_divisionId = Some 5\<rparr>"


section \<open>Properties of double rounding\<close>

lemma pow2_powi: "pow2 k = 2 powi k"
  by (simp add: pow2_def power_int_def power_one_over [symmetric] inverse_eq_divide)

lemma pow2_pos: "0 < pow2 k"
  by (simp add: pow2_def)

lemma pow2_add: "pow2 (a + b) = pow2 a * pow2 b"
  by (simp add: pow2_powi power_int_add)

lemma pow2_mono: "a \<le> b \<Longrightarrow> pow2 a \<le> pow2 b"
  by (simp add: pow2_powi power_int_increasing)

lemma pow2_nat: "0 \<le> k \<Longrightarrow> pow2 k = of_int (2 ^ nat k)"
  by (simp add: pow2_def)

lemma pow2_less_imp: "pow2 a < pow2 b \<Longrightarrow> a < b"
  using pow2_mono [of b a] by (cases "a < b") auto

lemma exponente_cotas:
  assumes "0 < x"
  shows "pow2 (exponente x) \<le> x \<and> x < pow2 (exponente x + 1)"
proof -
  obtain p q where pq: "quotient_of x = (p, q)" by (cases "quotient_of x")
  then have q: "0 < q" and x: "x = of_int p / of_int q"
    by (simp_all add: quotient_of_denom_pos quotient_of_div)
  have p: "0 < p"
    using assms q x by (simp add: zero_less_divide_iff)
  define k where "k = bitlen p - bitlen q"
  have bp: "(2::int) ^ nat (bitlen p - 1) \<le> p" "p < 2 ^ nat (bitlen p)"
    and bq: "(2::int) ^ nat (bitlen q - 1) \<le> q" "q < 2 ^ nat (bitlen q)"
    using bitlen_bounds [OF p] bitlen_bounds [OF q] by simp_all
  have b1: "1 \<le> bitlen p" "1 \<le> bitlen q"
    using p q bitlen_eq_zero_iff [of p] bitlen_eq_zero_iff [of q]
      bitlen_nonneg [of p] bitlen_nonneg [of q] by linarith+
  have rp: "pow2 (bitlen p - 1) \<le> of_int p" "of_int p < pow2 (bitlen p)"
    and rq: "pow2 (bitlen q - 1) \<le> of_int q" "of_int q < pow2 (bitlen q)"
    using bp bq b1 by (simp_all add: pow2_nat of_int_le_iff [symmetric] of_int_less_iff [symmetric]
        del: of_int_le_iff of_int_less_iff)
  have qpos: "(0::rat) < of_int q" using q by simp
  have up: "x < pow2 (k + 1)"
  proof -
    have "of_int p < pow2 (k + 1) * pow2 (bitlen q - 1)"
      using rp(2) by (simp add: pow2_add [symmetric] k_def)
    also have "\<dots> \<le> pow2 (k + 1) * of_int q"
      using rq(1) pow2_pos [of "k + 1"] by (simp add: mult_left_mono)
    finally show ?thesis
      using qpos by (simp add: x pos_divide_less_eq)
  qed
  have lo: "pow2 (k - 1) < x"
  proof -
    have "pow2 (k - 1) * of_int q < pow2 (k - 1) * pow2 (bitlen q)"
      using rq(2) pow2_pos [of "k - 1"] by (simp add: mult_strict_left_mono)
    also have "\<dots> = pow2 (bitlen p - 1)"
      by (simp add: pow2_add [symmetric] k_def)
    also have "\<dots> \<le> of_int p" by (rule rp(1))
    finally show ?thesis
      using qpos by (simp add: x pos_less_divide_eq)
  qed
  have e: "exponente x = (if pow2 k \<le> x then k else k - 1)"
    by (simp add: exponente_def pq k_def Let_def)
  show ?thesis
    using up lo by (auto simp add: e)
qed

lemma exponente_mono:
  assumes "0 < x" "x \<le> y"
  shows "exponente x \<le> exponente y"
proof -
  have "pow2 (exponente x) \<le> x" using exponente_cotas [OF assms(1)] by simp
  also note assms(2)
  also have "y < pow2 (exponente y + 1)"
    using exponente_cotas [of y] assms by simp
  finally have "exponente x < exponente y + 1" by (rule pow2_less_imp)
  then show ?thesis by simp
qed

lemma redondeo_par_disj: "redondeo_par r = \<lfloor>r\<rfloor> \<or> redondeo_par r = \<lfloor>r\<rfloor> + 1"
  by (simp add: redondeo_par_def Let_def)

lemma redondeo_par_error: "\<bar>of_int (redondeo_par r) - r\<bar> \<le> 1 / 2"
proof -
  have "of_int \<lfloor>r\<rfloor> \<le> r" "r < of_int \<lfloor>r\<rfloor> + 1" by linarith+
  then show ?thesis
    by (auto simp add: redondeo_par_def Let_def)
qed

lemma redondeo_par_of_int: "redondeo_par (of_int n) = n"
  by (simp add: redondeo_par_def)

lemma redondeo_par_mono:
  assumes "r \<le> r'"
  shows "redondeo_par r \<le> redondeo_par r'"
proof (cases "\<lfloor>r\<rfloor> = \<lfloor>r'\<rfloor>")
  case True
  with assms show ?thesis
    by (auto simp add: redondeo_par_def Let_def)
next
  case False
  with assms have "\<lfloor>r\<rfloor> < \<lfloor>r'\<rfloor>"
    using floor_mono [OF assms] by linarith
  moreover have "redondeo_par r \<le> \<lfloor>r\<rfloor> + 1" "\<lfloor>r'\<rfloor> \<le> redondeo_par r'"
    using redondeo_par_disj [of r] redondeo_par_disj [of r'] by auto
  ultimately show ?thesis by linarith
qed


lemma fl_0: "fl 0 = 0"
  by (simp add: fl_def)

lemma fl_minus: "fl (- x) = - fl x"
  by (simp add: fl_def Let_def sgn_minus)

lemma fl_pos:
  assumes "0 < x"
  shows "fl x = of_int (redondeo_par (x / pow2 (exponente x - 52))) * pow2 (exponente x - 52)"
  using assms by (simp add: fl_def Let_def)

lemma pow2_split: "pow2 e = pow2 k * pow2 (e - k)"
  by (simp add: pow2_add [symmetric])

lemma fl_entre_potencias:
  assumes "0 < x"
  shows "pow2 (exponente x) \<le> fl x \<and> fl x \<le> pow2 (exponente x + 1)"
proof -
  define e where "e = exponente x"
  define s where "s = pow2 (e - 52)"
  have s: "0 < s" by (simp add: s_def pow2_pos)
  have cotas: "pow2 e \<le> x" "x < pow2 (e + 1)"
    using exponente_cotas [OF assms] by (simp_all add: e_def)
  have lo: "pow2 e = of_int (2 ^ 52) * s"
    using pow2_split [of e 52] by (simp add: s_def pow2_def)
  have hi: "pow2 (e + 1) = of_int (2 ^ 53) * s"
    using pow2_split [of "e + 1" 53] by (simp add: s_def pow2_def)
  have "of_int (2 ^ 52) \<le> x / s"
    using cotas(1) s by (simp add: lo pos_le_divide_eq)
  then have "redondeo_par (of_int (2 ^ 52)) \<le> redondeo_par (x / s)"
    by (rule redondeo_par_mono)
  then have a: "2 ^ 52 \<le> redondeo_par (x / s)"
    by (simp only: redondeo_par_of_int)
  have "x / s \<le> of_int (2 ^ 53)"
    using cotas(2) s by (simp add: hi pos_divide_le_eq)
  then have "redondeo_par (x / s) \<le> redondeo_par (of_int (2 ^ 53))"
    by (rule redondeo_par_mono)
  then have b: "redondeo_par (x / s) \<le> 2 ^ 53"
    by (simp only: redondeo_par_of_int)
  have f: "fl x = of_int (redondeo_par (x / s)) * s"
    using fl_pos [OF assms] by (simp add: s_def e_def)
  have a': "(of_int (2 ^ 52) :: rat) \<le> of_int (redondeo_par (x / s))"
    using a by (simp only: of_int_le_iff)
  have b': "(of_int (redondeo_par (x / s)) :: rat) \<le> of_int (2 ^ 53)"
    using b by (simp only: of_int_le_iff)
  have s0: "0 \<le> s" using s by simp
  have "of_int (2 ^ 52) * s \<le> of_int (redondeo_par (x / s)) * s"
    using a' s0 by (rule mult_right_mono)
  moreover have "of_int (redondeo_par (x / s)) * s \<le> of_int (2 ^ 53) * s"
    using b' s0 by (rule mult_right_mono)
  ultimately show ?thesis
    by (simp only: f lo hi e_def [symmetric])
qed

lemma fl_pos_pos: "0 < x \<Longrightarrow> 0 < fl x"
  using fl_entre_potencias [of x] pow2_pos [of "exponente x"] by linarith

lemma fl_mono_pos:
  assumes "0 < x" "x \<le> y"
  shows "fl x \<le> fl y"
proof -
  have y: "0 < y" using assms by simp
  have le: "exponente x \<le> exponente y" using assms by (rule exponente_mono)
  show ?thesis
  proof (cases "exponente x = exponente y")
    case True
    define s where "s = pow2 (exponente y - 52)"
    have s: "0 < s" by (simp add: s_def pow2_pos)
    have "x / s \<le> y / s" using assms s by (simp add: divide_right_mono)
    then have "redondeo_par (x / s) \<le> redondeo_par (y / s)" by (rule redondeo_par_mono)
    then have "(of_int (redondeo_par (x / s)) :: rat) \<le> of_int (redondeo_par (y / s))"
      by (simp only: of_int_le_iff)
    then have "of_int (redondeo_par (x / s)) * s \<le> of_int (redondeo_par (y / s)) * s"
      using s by (intro mult_right_mono) simp_all
    then show ?thesis
      by (simp add: fl_pos [OF assms(1)] fl_pos [OF y] True s_def)
  next
    case False
    with le have "exponente x + 1 \<le> exponente y" by simp
    then have "pow2 (exponente x + 1) \<le> pow2 (exponente y)" by (rule pow2_mono)
    with fl_entre_potencias [OF assms(1)] fl_entre_potencias [OF y]
    show ?thesis by linarith
  qed
qed

lemma fl_mono:
  assumes "x \<le> y"
  shows "fl x \<le> fl y"
proof -
  consider "0 < x" | "x \<le> 0" "0 \<le> y" | "y < 0" by linarith
  then show ?thesis
  proof cases
    case 1
    then show ?thesis using assms by (rule fl_mono_pos)
  next
    case 2
    have "fl x \<le> 0"
    proof (cases "x = 0")
      case True
      then show ?thesis by (simp add: fl_0)
    next
      case False
      with 2 have "0 < - x" by simp
      then have "0 < fl (- x)" by (rule fl_pos_pos)
      then show ?thesis by (simp add: fl_minus)
    qed
    moreover have "0 \<le> fl y"
    proof (cases "y = 0")
      case True
      then show ?thesis by (simp add: fl_0)
    next
      case False
      with 2 have "0 < y" by simp
      then have "0 < fl y" by (rule fl_pos_pos)
      then show ?thesis by simp
    qed
    ultimately show ?thesis by simp
  next
    case 3
    then have "0 < - y" "- y \<le> - x" using assms by simp_all
    then have "fl (- y) \<le> fl (- x)" by (rule fl_mono_pos)
    then show ?thesis by (simp add: fl_minus)
  qed
qed

lemma fl_error_pos:
  assumes "0 < x"
  shows "\<bar>fl x - x\<bar> \<le> x / 2 ^ 53"
proof -
  define e where "e = exponente x"
  define s where "s = pow2 (e - 52)"
  have s: "0 < s" by (simp add: s_def pow2_pos)
  have lo: "pow2 e = of_int (2 ^ 52) * s"
    using pow2_split [of e 52] by (simp add: s_def pow2_def)
  have x: "of_int (2 ^ 52) * s \<le> x"
    using exponente_cotas [OF assms] by (simp add: e_def [symmetric] lo)
  have f: "fl x = of_int (redondeo_par (x / s)) * s"
    using fl_pos [OF assms] by (simp add: s_def e_def)
  have "fl x - x = (of_int (redondeo_par (x / s)) - x / s) * s"
    using s by (simp add: f left_diff_distrib)
  then have "\<bar>fl x - x\<bar> = \<bar>of_int (redondeo_par (x / s)) - x / s\<bar> * s"
    using s by (simp add: abs_mult)
  also have "\<dots> \<le> 1 / 2 * s"
    using redondeo_par_error [of "x / s"] s by (intro mult_right_mono) simp_all
  also have "\<dots> = of_int (2 ^ 52) * s / 2 ^ 53"
    by simp
  also have "\<dots> \<le> x / 2 ^ 53"
    using x by (intro divide_right_mono) simp_all
  finally show ?thesis .
qed

lemma fl_error: "\<bar>fl x - x\<bar> \<le> \<bar>x\<bar> / 2 ^ 53"
proof -
  consider "0 < x" | "x = 0" | "0 < - x" by linarith
  then show ?thesis
  proof cases
    case 1
    then show ?thesis using fl_error_pos [of x] by simp
  next
    case 2
    then show ?thesis by (simp add: fl_0)
  next
    case 3
    have "\<bar>fl x - x\<bar> = \<bar>fl (- x) - (- x)\<bar>"
      by (simp add: fl_minus)
    also have "\<dots> \<le> - x / 2 ^ 53"
      using fl_error_pos [OF 3] by simp
    finally show ?thesis using 3 by simp
  qed
qed

lemma fl_error_num: "\<bar>fl x - x\<bar> \<le> \<bar>x\<bar> / 9007199254740992"
  using fl_error [of x] by simp

lemma fl_cotas_pos:
  assumes "0 < x"
  shows "x * (1 - 1 / 9007199254740992) \<le> fl x" and "fl x \<le> x * (1 + 1 / 9007199254740992)"
proof -
  define d where "d = x / 9007199254740992"
  have "\<bar>fl x - x\<bar> \<le> d"
    using fl_error_num [of x] assms by (simp add: d_def)
  then have a: "x - d \<le> fl x" "fl x \<le> x + d"
    by (simp_all add: abs_le_iff algebra_simps)
  have eq: "x * (1 - 1 / 9007199254740992) = x - d" "x * (1 + 1 / 9007199254740992) = x + d"
    by (simp_all add: d_def algebra_simps)
  show "x * (1 - 1 / 9007199254740992) \<le> fl x"
    and "fl x \<le> x * (1 + 1 / 9007199254740992)"
    using a by (simp_all only: eq)
qed

lemma fl_nonpos_iff: "fl x \<le> 0 \<longleftrightarrow> x \<le> 0"
proof
  assume "fl x \<le> 0"
  then show "x \<le> 0" using fl_pos_pos [of x] by (cases "0 < x") auto
next
  assume "x \<le> 0"
  then have "fl x \<le> fl 0" by (rule fl_mono)
  then show "fl x \<le> 0" by (simp add: fl_0)
qed

lemma fl_nonneg: "0 \<le> x \<Longrightarrow> 0 \<le> fl x"
  using fl_mono [of 0 x] by (simp add: fl_0)

lemma fl_1: "fl 1 = 1"
  by code_simp

lemma fl_100: "fl 100 = 100"
  by code_simp

lemma fl_10000: "fl 10000 = 10000"
  by code_simp

lemma fl_le_1: "x \<le> 1 \<Longrightarrow> fl x \<le> 1"
  using fl_mono [of x 1] by (simp add: fl_1)

lemma fl_le_100: "x \<le> 100 \<Longrightarrow> fl x \<le> 100"
  using fl_mono [of x 100] by (simp add: fl_100)

lemma fl_le_10000: "x \<le> 10000 \<Longrightarrow> fl x \<le> 10000"
  using fl_mono [of x 10000] by (simp add: fl_10000)

section \<open>Properties of the reported figures\<close>

lemma Math_round_mono: "x \<le> y \<Longrightarrow> Math_round x \<le> Math_round y"
  by (simp add: Math_round_def floor_mono)

lemma Math_round_cotas:
  "of_int (Math_round x) \<le> x + 1 / 2" "x - 1 / 2 < of_int (Math_round x)"
  unfolding Math_round_def by linarith+

text \<open>
  Dividing a rounded count of hundredths by \<open>100\<close>: the result stays in range and within
  a rounding error of the exact quotient.
\<close>

lemma centesimas:
  assumes "0 \<le> p" "p \<le> 10000"
  shows "0 \<le> js_quot (of_int (Math_round p)) 100"
    and "js_quot (of_int (Math_round p)) 100 \<le> 100"
    and "\<bar>js_quot (of_int (Math_round p)) 100 - p / 100\<bar> \<le> 1 / 200 + 100 / 9007199254740992"
proof -
  define n where "n = Math_round p"
  have n0: "0 \<le> n"
    using assms(1) Math_round_mono [of 0 p] by (simp add: n_def Math_round_def)
  have "Math_round p \<le> Math_round 10000" using assms(2) by (rule Math_round_mono)
  moreover have "Math_round 10000 = 10000" by code_simp
  ultimately have n1: "n \<le> 10000" by (simp add: n_def)
  have q: "(0::rat) \<le> of_int n / 100" "(of_int n :: rat) / 100 \<le> 100"
    using n0 n1 by simp_all
  show "0 \<le> js_quot (of_int (Math_round p)) 100"
    using q(1) by (simp add: js_quot_def fl_nonneg n_def)
  show "js_quot (of_int (Math_round p)) 100 \<le> 100"
    using q(2) by (simp add: js_quot_def fl_le_100 n_def)
  have "\<bar>fl (of_int n / 100) - of_int n / 100\<bar> \<le> \<bar>of_int n / 100\<bar> / 9007199254740992"
    by (rule fl_error_num)
  moreover have "of_int n \<le> p + 1 / 2" "p - 1 / 2 < of_int n"
    using Math_round_cotas [of p] by (simp_all add: n_def)
  ultimately show "\<bar>js_quot (of_int (Math_round p)) 100 - p / 100\<bar>
      \<le> 1 / 200 + 100 / 9007199254740992"
    using q unfolding js_quot_def n_def [symmetric] by linarith
qed

lemma round2_js_mono: "v \<le> w \<Longrightarrow> round2_js v \<le> round2_js w"
  unfolding round2_js_def js_quot_def js_mul_def
  by (intro fl_mono divide_right_mono) (simp_all add: Math_round_mono fl_mono)

lemma round2_js_entero:
  assumes "0 \<le> v" "v \<le> 100"
  obtains n where "round2_js v = fl (of_int n / 100)" "0 \<le> n" "n \<le> 10000"
    "\<bar>of_int n - v * 100\<bar> \<le> 1 / 2 + 10000 / 9007199254740992"
proof -
  define p where "p = js_mul v 100"
  have p: "0 \<le> p" "p \<le> 10000"
    using assms by (simp_all add: p_def js_mul_def fl_nonneg fl_le_10000)
  have "\<bar>fl (v * 100) - v * 100\<bar> \<le> \<bar>v * 100\<bar> / 9007199254740992"
    by (rule fl_error_num)
  then have e: "\<bar>p - v * 100\<bar> \<le> 10000 / 9007199254740992"
    using assms by (simp add: p_def js_mul_def abs_mult)
  have "0 \<le> Math_round p"
    using p(1) Math_round_mono [of 0 p] by (simp add: Math_round_def)
  moreover have "Math_round p \<le> 10000"
  proof -
    have "Math_round p \<le> Math_round 10000" using p(2) by (rule Math_round_mono)
    moreover have "Math_round 10000 = 10000" by code_simp
    ultimately show ?thesis by simp
  qed
  moreover have "\<bar>of_int (Math_round p) - v * 100\<bar> \<le> 1 / 2 + 10000 / 9007199254740992"
    using Math_round_cotas [of p] e by linarith
  moreover have "round2_js v = fl (of_int (Math_round p) / 100)"
    by (simp add: round2_js_def js_quot_def p_def)
  ultimately show ?thesis using that by blast
qed

lemma round2_js_rango:
  assumes "0 \<le> v" "v \<le> 100"
  shows "0 \<le> round2_js v \<and> round2_js v \<le> 100 \<and>
         \<bar>round2_js v - v\<bar> \<le> 1 / 200 + 200 / 9007199254740992"
proof -
  define p where "p = js_mul v 100"
  have p: "0 \<le> p" "p \<le> 10000"
    using assms by (simp_all add: p_def js_mul_def fl_nonneg fl_le_10000)
  have "\<bar>fl (v * 100) - v * 100\<bar> \<le> \<bar>v * 100\<bar> / 9007199254740992"
    by (rule fl_error_num)
  then have e: "\<bar>p - v * 100\<bar> \<le> 10000 / 9007199254740992"
    using assms by (simp add: p_def js_mul_def abs_mult)
  show ?thesis
    using centesimas [OF p] e unfolding round2_js_def p_def [symmetric] by linarith
qed

lemma round2_js_0: "round2_js 0 = 0"
  by code_simp


section \<open>Properties of the punctuality score\<close>

lemma calcularPuntualidad_casos:
  "calcularPuntualidad e i l =
     (if fl (of_int (e - i)) \<le> 0 then Some 100
      else if fl (of_int (l - i)) \<le> fl (of_int (e - i)) then Some 0
      else Some (round2_js (js_sub 100
                   (js_mul (fl (fl (of_int (e - i)) / fl (of_int (l - i)))) 100))))"
  by (auto simp add: calcularPuntualidad_def js_sub_def js_div_def round2_js_def Let_def)

text \<open>The double quotient of the two rounded differences stays close to the exact one.\<close>

lemma cociente_cerca:
  fixes E W :: rat
  assumes "0 < E" "E < W" "fl E < fl W"
  shows "0 \<le> fl (fl E / fl W)" and "fl (fl E / fl W) \<le> 1"
    and "\<bar>fl (fl E / fl W) - E / W\<bar> \<le> 4 / 9007199254740992"
proof -
  define u :: rat where "u = 1 / 9007199254740992"
  have u: "0 < u" "u \<le> 1 / 4" by (simp_all add: u_def)
  have W: "0 < W" using assms by simp
  have te: "E * (1 - u) \<le> fl E" "fl E \<le> E * (1 + u)"
    using fl_cotas_pos [OF assms(1)] by (simp_all only: u_def)
  have tt: "W * (1 - u) \<le> fl W" "fl W \<le> W * (1 + u)"
    using fl_cotas_pos [OF W] by (simp_all only: u_def)
  have tepos: "0 < fl E" using assms(1) by (rule fl_pos_pos)
  have ttpos: "0 < fl W" using W by (rule fl_pos_pos)
  define c where "c = E / W"
  have c: "0 < c" "c < 1" using assms W by (simp_all add: c_def)
  define r where "r = fl E / fl W"
  have r: "0 < r" "r < 1" using tepos ttpos assms(3) by (simp_all add: r_def)
  have up: "r \<le> c * ((1 + u) / (1 - u))"
  proof -
    have "0 \<le> E * (1 + u)" using assms(1) u by simp
    moreover have "0 < W * (1 - u)" using W u by simp
    ultimately have "fl E / fl W \<le> (E * (1 + u)) / (W * (1 - u))"
      using te(2) tt(1) by (intro frac_le)
    then show ?thesis by (simp add: r_def c_def)
  qed
  have lo: "c * ((1 - u) / (1 + u)) \<le> r"
  proof -
    have "0 \<le> fl E" using tepos by simp
    then have "(E * (1 - u)) / (W * (1 + u)) \<le> fl E / fl W"
      using te(1) ttpos tt(2) by (rule frac_le)
    then show ?thesis by (simp add: r_def c_def)
  qed
  have n1: "(1 + u) / (1 - u) \<le> 1 + 3 * u" and n2: "1 - 2 * u \<le> (1 - u) / (1 + u)"
    by (simp_all add: u_def)
  have c0: "0 \<le> c" using c(1) by simp
  have "c * ((1 + u) / (1 - u)) \<le> c * (1 + 3 * u)"
    using n1 c0 by (rule mult_left_mono)
  moreover have "c * (1 - 2 * u) \<le> c * ((1 - u) / (1 + u))"
    using n2 c0 by (rule mult_left_mono)
  moreover have "c * (1 + 3 * u) = c + 3 * u * c" "c * (1 - 2 * u) = c - 2 * u * c"
    by (simp_all add: algebra_simps)
  ultimately have "r \<le> c + 3 * u * c" "c - 2 * u * c \<le> r"
    using up lo by linarith+
  moreover have "3 * u * c \<le> 3 * u" "2 * u * c \<le> 2 * u"
    using c u by simp_all
  ultimately have rc: "\<bar>r - c\<bar> \<le> 3 * u" by linarith
  have "\<bar>fl r - r\<bar> \<le> \<bar>r\<bar> / 9007199254740992" by (rule fl_error_num)
  then have "\<bar>fl r - r\<bar> \<le> u" using r by (simp add: u_def)
  with rc have "\<bar>fl r - c\<bar> \<le> 4 * u" by linarith
  then show "\<bar>fl (fl E / fl W) - E / W\<bar> \<le> 4 / 9007199254740992"
    by (simp add: r_def c_def u_def)
  show "0 \<le> fl (fl E / fl W)" using r(1) by (simp add: r_def [symmetric] fl_nonneg)
  show "fl (fl E / fl W) \<le> 1" using r(2) by (simp add: r_def [symmetric] fl_le_1)
qed

text \<open>From the quotient to the score: range and distance to the exact percentage.\<close>

lemma porcentaje_cerca:
  assumes "0 \<le> q" "q \<le> 1" "\<bar>q - c\<bar> \<le> 4 / 9007199254740992"
  obtains n where "round2_js (js_sub 100 (js_mul q 100)) = fl (of_int n / 100)"
    "0 \<le> n" "n \<le> 10000"
    "\<bar>of_int n - (100 - c * 100) * 100\<bar> \<le> 1 / 2 + 70000 / 9007199254740992"
    "0 \<le> round2_js (js_sub 100 (js_mul q 100))"
    "round2_js (js_sub 100 (js_mul q 100)) \<le> 100"
    "\<bar>round2_js (js_sub 100 (js_mul q 100)) - (100 - c * 100)\<bar>
           \<le> 1 / 200 + 800 / 9007199254740992"
proof -
  define m where "m = js_mul q 100"
  define y where "y = js_sub 100 m"
  have m: "0 \<le> m" "m \<le> 100"
    using assms by (simp_all add: m_def js_mul_def fl_nonneg fl_le_100)
  have "\<bar>fl (q * 100) - q * 100\<bar> \<le> \<bar>q * 100\<bar> / 9007199254740992"
    by (rule fl_error_num)
  then have em: "\<bar>m - q * 100\<bar> \<le> 100 / 9007199254740992"
    using assms by (simp add: m_def js_mul_def abs_mult)
  have y: "0 \<le> y" "y \<le> 100"
    using m by (simp_all add: y_def js_sub_def fl_nonneg fl_le_100)
  have "\<bar>fl (100 - m) - (100 - m)\<bar> \<le> \<bar>100 - m\<bar> / 9007199254740992"
    by (rule fl_error_num)
  then have ey: "\<bar>y - (100 - m)\<bar> \<le> 100 / 9007199254740992"
    using m by (simp add: y_def js_sub_def)
  define x where "x = 100 - c * 100"
  have yc: "\<bar>y - x\<bar> \<le> 600 / 9007199254740992"
    using em ey assms(3) unfolding x_def by linarith
  note r = round2_js_rango [OF y]
  obtain n where n: "round2_js y = fl (of_int n / 100)" "0 \<le> n" "n \<le> 10000"
    "\<bar>of_int n - y * 100\<bar> \<le> 1 / 2 + 10000 / 9007199254740992"
    using round2_js_entero [OF y] by blast
  have "\<bar>of_int n - x * 100\<bar> \<le> 1 / 2 + 70000 / 9007199254740992"
    using n(4) yc by linarith
  moreover have "\<bar>round2_js y - x\<bar> \<le> 1 / 200 + 800 / 9007199254740992"
    using r yc by linarith
  ultimately show ?thesis
    using that [of n] n(1,2,3) r unfolding y_def m_def x_def by blast
qed

lemma calcularPuntualidad_cerca:
  assumes "0 < e - i" "e - i < l - i"
  shows "\<exists>p n. calcularPuntualidad e i l = Some p \<and> p = fl (of_int n / 100) \<and>
           0 \<le> n \<and> n \<le> 10000 \<and>
           \<bar>of_int n - (100 - of_int (e - i) / of_int (l - i) * 100) * 100\<bar>
             \<le> (1 / 2 + 1 / 10000000000 :: rat) \<and>
           0 \<le> p \<and> p \<le> 100 \<and>
           \<bar>p - (100 - of_int (e - i) / of_int (l - i) * 100)\<bar>
             \<le> 1 / 200 + 1 / 1000000000000"
proof -
  define E :: rat where "E = of_int (e - i)"
  define W :: rat where "W = of_int (l - i)"
  define X :: rat where "X = 100 - E / W * 100"
  have EW: "0 < E" "E < W" using assms by (simp_all add: E_def W_def)
  have tepos: "\<not> fl E \<le> 0" using EW(1) by (simp add: fl_nonpos_iff)
  have "\<exists>p n. calcularPuntualidad e i l = Some p \<and> p = fl (of_int n / 100) \<and>
           0 \<le> n \<and> n \<le> 10000 \<and>
           \<bar>of_int n - X * 100\<bar> \<le> 1 / 2 + 1 / 10000000000 \<and>
           0 \<le> p \<and> p \<le> 100 \<and> \<bar>p - X\<bar> \<le> 1 / 200 + 1 / 1000000000000"
  proof (cases "fl W \<le> fl E")
    case True
    define t where "t = (W - E) / W"
    have Wpos: "0 < W" using EW by simp
    have "W * (1 - 1 / 9007199254740992) \<le> E * (1 + 1 / 9007199254740992)"
      using True fl_cotas_pos(1) [OF Wpos] fl_cotas_pos(2) [OF EW(1)] by linarith
    then have "W - E \<le> (W + E) / 9007199254740992"
      by (simp add: algebra_simps)
    also have "\<dots> \<le> 2 * W / 9007199254740992"
      using EW by simp
    finally have "(W - E) / W \<le> 2 / 9007199254740992"
      using EW by (simp add: pos_divide_le_eq)
    then have t1: "t \<le> 2 / 9007199254740992" by (simp only: t_def)
    have t2: "X = t * 100"
      using EW by (simp add: X_def t_def diff_divide_distrib)
    have t3: "0 \<le> t"
      using EW by (simp add: t_def)
    have x: "0 \<le> X" "X \<le> 200 / 9007199254740992"
      using t1 t3 by (simp_all add: t2)
    have c: "calcularPuntualidad e i l = Some 0"
      using True tepos by (simp add: calcularPuntualidad_casos E_def W_def)
    have z: "(0::rat) = fl (of_int 0 / 100)" by (simp add: fl_0)
    have "\<bar>of_int 0 - X * 100\<bar> \<le> 1 / 2 + 1 / 10000000000"
      and "\<bar>0 - X\<bar> \<le> 1 / 200 + 1 / 1000000000000"
      using x by simp_all
    with c z show ?thesis
      by (intro exI [of _ "0::rat"] exI [of _ "0::int"]) simp
  next
    case False
    then have lt: "fl E < fl W" by simp
    note q = cociente_cerca [OF EW lt]
    obtain n where n: "round2_js (js_sub 100 (js_mul (fl (fl E / fl W)) 100)) = fl (of_int n / 100)"
      "0 \<le> n" "n \<le> 10000"
      "\<bar>of_int n - (100 - E / W * 100) * 100\<bar> \<le> 1 / 2 + 70000 / 9007199254740992"
      "0 \<le> round2_js (js_sub 100 (js_mul (fl (fl E / fl W)) 100))"
      "round2_js (js_sub 100 (js_mul (fl (fl E / fl W)) 100)) \<le> 100"
      "\<bar>round2_js (js_sub 100 (js_mul (fl (fl E / fl W)) 100)) - (100 - E / W * 100)\<bar>
           \<le> 1 / 200 + 800 / 9007199254740992"
      using porcentaje_cerca [OF q] by blast
    have c: "calcularPuntualidad e i l = Some (fl (of_int n / 100))"
      using False tepos by (simp add: calcularPuntualidad_casos E_def W_def n(1) [symmetric])
    have "\<bar>of_int n - X * 100\<bar> \<le> 1 / 2 + 1 / 10000000000"
      using n(4) unfolding X_def [symmetric] by linarith
    moreover have "\<bar>fl (of_int n / 100) - X\<bar> \<le> 1 / 200 + 1 / 1000000000000"
      using n(7) unfolding n(1) X_def [symmetric] by linarith
    moreover have "0 \<le> fl (of_int n / 100)" "fl (of_int n / 100) \<le> 100"
      using n(5,6) by (simp_all only: n(1))
    ultimately show ?thesis
      using n(2,3) c by blast
  qed
  then show ?thesis by (simp only: X_def E_def W_def)
qed


lemma puntaje_rango:
  assumes "0 < a" "a < b"
  shows "0 \<le> round2_js (js_sub 100 (js_mul (fl (a / b)) 100))"
    and "round2_js (js_sub 100 (js_mul (fl (a / b)) 100)) \<le> 100"
proof -
  have "0 \<le> a / b" "a / b \<le> 1" using assms by simp_all
  then have q: "0 \<le> fl (a / b)" "fl (a / b) \<le> 1"
    by (simp_all add: fl_nonneg fl_le_1)
  have "\<bar>fl (a / b) - fl (a / b)\<bar> \<le> (4 / 9007199254740992 :: rat)" by simp
  from porcentaje_cerca [OF q this]
  show "0 \<le> round2_js (js_sub 100 (js_mul (fl (a / b)) 100))"
    and "round2_js (js_sub 100 (js_mul (fl (a / b)) 100)) \<le> 100"
    by blast+
qed

lemma puntaje_antimono:
  assumes "a \<le> a'" "0 < b"
  shows "round2_js (js_sub 100 (js_mul (fl (a' / b)) 100))
         \<le> round2_js (js_sub 100 (js_mul (fl (a / b)) 100))"
proof -
  have "a / b \<le> a' / b" using assms by (simp add: divide_right_mono)
  then have "fl (a / b) \<le> fl (a' / b)" by (rule fl_mono)
  then have "js_mul (fl (a / b)) 100 \<le> js_mul (fl (a' / b)) 100"
    unfolding js_mul_def by (intro fl_mono) simp
  then have "js_sub 100 (js_mul (fl (a' / b)) 100) \<le> js_sub 100 (js_mul (fl (a / b)) 100)"
    unfolding js_sub_def by (intro fl_mono) simp
  then show ?thesis by (rule round2_js_mono)
qed

lemma calcularPuntualidad_mono:
  assumes "e1 \<le> e2"
  shows "\<exists>p1 p2. calcularPuntualidad e1 i l = Some p1 \<and>
           calcularPuntualidad e2 i l = Some p2 \<and> p2 \<le> p1"
proof -
  define a where "a = fl (of_int (e1 - i))"
  define a' where "a' = fl (of_int (e2 - i))"
  define b where "b = fl (of_int (l - i))"
  have aa: "a \<le> a'"
    unfolding a_def a'_def using assms by (intro fl_mono) simp
  have c1: "calcularPuntualidad e1 i l =
      (if a \<le> 0 then Some 100 else if b \<le> a then Some 0
       else Some (round2_js (js_sub 100 (js_mul (fl (a / b)) 100))))"
    and c2: "calcularPuntualidad e2 i l =
      (if a' \<le> 0 then Some 100 else if b \<le> a' then Some 0
       else Some (round2_js (js_sub 100 (js_mul (fl (a' / b)) 100))))"
    by (simp_all add: calcularPuntualidad_casos a_def a'_def b_def)
  consider "a \<le> 0" "a' \<le> 0" | "a \<le> 0" "0 < a'" "b \<le> a'" | "a \<le> 0" "0 < a'" "a' < b"
    | "0 < a" "b \<le> a" | "0 < a" "a < b" "b \<le> a'" | "0 < a" "a < b" "a' < b"
    by linarith
  then show ?thesis
  proof cases
    case 1
    then show ?thesis by (simp add: c1 c2)
  next
    case 2
    then show ?thesis by (simp add: c1 c2)
  next
    case 3
    then show ?thesis using puntaje_rango(2) [of a' b] by (simp add: c1 c2)
  next
    case 4
    then show ?thesis using aa by (simp add: c1 c2)
  next
    case 5
    then show ?thesis using aa puntaje_rango(1) [of a b] by (simp add: c1 c2)
  next
    case 6
    then show ?thesis using aa puntaje_antimono [of a a' b] by (simp add: c1 c2)
  qed
qed

text \<open>
  Claim C2, as amended. The punctuality score of a delivery, with
  \<open>elapsed = submittedAt - startTime\<close> and \<open>window = deadlineTime - startTime\<close>, is \<open>100\<close>
  when \<open>elapsed \<le> 0\<close>; otherwise \<open>0\<close> when \<open>elapsed \<ge> window\<close>; otherwise, the service
  computing in doubles, it is the double nearest to \<open>n / 100\<close> for a whole number \<open>n\<close> of
  hundredths between \<open>0\<close> and \<open>10000\<close> that lies within \<open>1/2 + 10^-10\<close> of
  \<open>(100 - elapsed / window * 100) * 100\<close>: the exact percentage rounded to two decimals,
  except that next to a tie either neighbouring hundredth may come out. The score lies
  in \<open>[0, 100]\<close> and within \<open>0.005 + 10^-12\<close> of the exact percentage.
\<close>

theorem calcularPuntualidad_por_casos:
  "(let elapsed = submittedAt - startTime;
        window = deadlineTime - startTime
    in (elapsed \<le> 0 \<longrightarrow>
          calcularPuntualidad submittedAt startTime deadlineTime = Some 100) \<and>
       (0 < elapsed \<and> window \<le> elapsed \<longrightarrow>
          calcularPuntualidad submittedAt startTime deadlineTime = Some 0) \<and>
       (0 < elapsed \<and> elapsed < window \<longrightarrow>
          (\<exists>p n. calcularPuntualidad submittedAt startTime deadlineTime = Some p \<and>
             p = fl (of_int n / 100) \<and> 0 \<le> n \<and> n \<le> 10000 \<and>
             \<bar>of_int n - (100 - of_int elapsed / of_int window * 100) * 100\<bar>
               \<le> (1 / 2 + 1 / 10000000000 :: rat) \<and>
             0 \<le> p \<and> p \<le> 100 \<and>
             \<bar>p - (100 - of_int elapsed / of_int window * 100)\<bar>
               \<le> 1 / 200 + 1 / 1000000000000)))"
proof -
  let ?E = "submittedAt - startTime" and ?W = "deadlineTime - startTime"
  have "calcularPuntualidad submittedAt startTime deadlineTime = Some 100" if "?E \<le> 0"
    using that by (simp add: calcularPuntualidad_casos fl_nonpos_iff)
  moreover have "calcularPuntualidad submittedAt startTime deadlineTime = Some 0"
    if "0 < ?E" "?W \<le> ?E"
  proof -
    have "fl (of_int ?W) \<le> fl (of_int ?E)"
      using that(2) by (intro fl_mono) (simp only: of_int_le_iff)
    moreover have "\<not> fl (of_int ?E) \<le> 0"
      using that(1) by (simp add: fl_nonpos_iff)
    ultimately show ?thesis by (simp add: calcularPuntualidad_casos)
  qed
  moreover have "\<exists>p n. calcularPuntualidad submittedAt startTime deadlineTime = Some p \<and>
             p = fl (of_int n / 100) \<and> 0 \<le> n \<and> n \<le> 10000 \<and>
             \<bar>of_int n - (100 - of_int ?E / of_int ?W * 100) * 100\<bar>
               \<le> (1 / 2 + 1 / 10000000000 :: rat) \<and>
             0 \<le> p \<and> p \<le> 100 \<and>
             \<bar>p - (100 - of_int ?E / of_int ?W * 100)\<bar>
               \<le> 1 / 200 + 1 / 1000000000000"
    if "0 < ?E" "?E < ?W"
    using that by (rule calcularPuntualidad_cerca)
  ultimately show ?thesis
    unfolding Let_def by blast
qed

text \<open>One delivery for each of the three cases, on a task running from \<open>0\<close> to \<open>30\<close>.\<close>

theorem calcularPuntualidad_por_casos_witness:
  "calcularPuntualidad 0 0 30 = Some 100 \<and>
   calcularPuntualidad 30 0 30 = Some 0 \<and>
   (\<exists>p n. calcularPuntualidad 10 0 30 = Some p \<and> p = fl (of_int n / 100) \<and>
      \<bar>of_int n - (100 - 10 / 30 * 100) * 100\<bar> \<le> (1 / 2 + 1 / 10000000000 :: rat) \<and>
      0 \<le> p \<and> p \<le> 100 \<and> \<bar>p - (100 - 10 / 30 * 100)\<bar> \<le> 1 / 200 + 1 / 1000000000000)"
  using calcularPuntualidad_por_casos [of 0 0 30]
    calcularPuntualidad_por_casos [of 30 0 30]
    calcularPuntualidad_por_casos [of 10 0 30]
  by (simp add: Let_def) blast

text \<open>
  Claim C2 as stated fails: for a task running from \<open>0\<close> to \<open>160\<close> and a delivery at
  \<open>83\<close> the exact percentage is \<open>48.125\<close>, which rounds half-up to \<open>48.13\<close>; the
  service, computing \<open>100 - (83 / 160) * 100\<close> in doubles, gets a value just below the
  tie and returns \<open>48.12\<close>.
\<close>

theorem calcularPuntualidad_no_es_round2:
  "(0::int) < 83 - 0 \<and> (83::int) - 0 < 160 - 0 \<and>
   calcularPuntualidad 83 0 160 = Some (fl (4812 / 100)) \<and>
   round2 (100 - of_int (83 - 0) / of_int (160 - 0) * 100) = 4813 / 100 \<and>
   fl (4812 / 100) \<noteq> 4813 / 100 \<and> fl (4812 / 100) \<noteq> fl (4813 / 100)"
  by code_simp

text \<open>
  Claim C10. \<open>calcularPuntualidad\<close> always returns a finite score. When the window is
  empty (\<open>deadlineTime = startTime\<close>) one of the two early returns fires, so the division
  is not reached, and the score is \<open>100\<close> for a delivery at or before the start and \<open>0\<close>
  for any later one.
\<close>

theorem calcularPuntualidad_total:
  "(\<exists>p. calcularPuntualidad fechaEntrega fechaInicio fechaLimite = Some p) \<and>
   (fechaLimite - fechaInicio = 0 \<longrightarrow>
      (fechaEntrega - fechaInicio \<le> 0 \<or> fechaLimite - fechaInicio \<le> fechaEntrega - fechaInicio) \<and>
      calcularPuntualidad fechaEntrega fechaInicio fechaLimite =
        Some (if fechaEntrega \<le> fechaInicio then 100 else 0))"
proof -
  have "\<exists>p. calcularPuntualidad fechaEntrega fechaInicio fechaLimite = Some p"
    by (simp add: calcularPuntualidad_casos)
  moreover have "calcularPuntualidad fechaEntrega fechaInicio fechaLimite =
      Some (if fechaEntrega \<le> fechaInicio then 100 else 0)"
    if "fechaLimite - fechaInicio = 0"
  proof -
    have "fl (of_int (fechaLimite - fechaInicio)) = 0"
      using that by (simp add: fl_0)
    moreover have "fl (of_int (fechaEntrega - fechaInicio)) \<le> 0
        \<longleftrightarrow> fechaEntrega \<le> fechaInicio"
      by (simp add: fl_nonpos_iff)
    moreover have "0 \<le> fl (of_int (fechaEntrega - fechaInicio))"
      if "\<not> fechaEntrega \<le> fechaInicio"
      using that by (intro fl_nonneg) simp
    ultimately show ?thesis
      by (simp add: calcularPuntualidad_casos)
  qed
  ultimately show ?thesis by auto
qed

text \<open>Deliveries after, at and before the start of a task whose window is empty.\<close>

theorem calcularPuntualidad_total_witness:
  "calcularPuntualidad 5 3 3 = Some 0 \<and> calcularPuntualidad 3 3 3 = Some 100
   \<and> calcularPuntualidad 2 3 3 = Some 100"
  using calcularPuntualidad_total [of 5 3 3] calcularPuntualidad_total [of 3 3 3]
     calcularPuntualidad_total [of 2 3 3]
  by simp

text \<open>
  Claim C7, as amended. For a task with \<open>startTime < deadlineTime\<close> and two deliveries
  with \<open>startTime < submittedAt1 < submittedAt2 < deadlineTime\<close>, the score of the first
  is at least the score of the second, and it is strictly greater whenever the two
  deliveries lie at least a five-thousandth of the window apart (the exact percentages
  then differ by at least \<open>0.02\<close>).
\<close>

theorem calcularPuntualidad_decrece:
  assumes "startTime < submittedAt1" "submittedAt1 < submittedAt2" "submittedAt2 < deadlineTime"
  shows "\<exists>p1 p2. calcularPuntualidad submittedAt1 startTime deadlineTime = Some p1 \<and>
           calcularPuntualidad submittedAt2 startTime deadlineTime = Some p2 \<and>
           p2 \<le> p1 \<and>
           (deadlineTime - startTime \<le> (submittedAt2 - submittedAt1) * 5000 \<longrightarrow> p2 < p1)"
proof -
  let ?W = "of_int (deadlineTime - startTime) :: rat"
  let ?a = "of_int (submittedAt1 - startTime) :: rat"
  let ?b = "of_int (submittedAt2 - startTime) :: rat"
  obtain p1 p2 where p: "calcularPuntualidad submittedAt1 startTime deadlineTime = Some p1"
    "calcularPuntualidad submittedAt2 startTime deadlineTime = Some p2" "p2 \<le> p1"
    using calcularPuntualidad_mono [of submittedAt1 submittedAt2 startTime deadlineTime] assms
    by auto
  have "p2 < p1" if far: "deadlineTime - startTime \<le> (submittedAt2 - submittedAt1) * 5000"
  proof -
    have "0 < submittedAt1 - startTime" "submittedAt1 - startTime < deadlineTime - startTime"
      using assms by simp_all
    from calcularPuntualidad_cerca [OF this] p(1)
    have c1: "\<bar>p1 - (100 - ?a / ?W * 100)\<bar> \<le> 1 / 200 + 1 / 1000000000000"
      by auto
    have "0 < submittedAt2 - startTime" "submittedAt2 - startTime < deadlineTime - startTime"
      using assms by simp_all
    from calcularPuntualidad_cerca [OF this] p(2)
    have c2: "\<bar>p2 - (100 - ?b / ?W * 100)\<bar> \<le> 1 / 200 + 1 / 1000000000000"
      by auto
    have w: "0 < ?W" using assms by simp
    define t where "t = (?b - ?a) / ?W"
    have "?W \<le> of_int ((submittedAt2 - submittedAt1) * 5000)"
      using far by (simp only: of_int_le_iff)
    then have "?W \<le> (?b - ?a) * 5000" by simp
    then have "1 \<le> (?b - ?a) * 5000 / ?W"
      using w by (simp only: le_divide_eq_1_pos)
    then have t: "1 \<le> t * 5000" by (simp add: t_def)
    have "?b / ?W = ?a / ?W + t"
      by (simp add: t_def diff_divide_distrib)
    then show ?thesis using c1 c2 t by linarith
  qed
  with p show ?thesis by blast
qed

text \<open>Two deliveries ten time units apart in a window of thirty.\<close>

theorem calcularPuntualidad_decrece_witness:
  "\<exists>p1 p2. calcularPuntualidad 10 0 30 = Some p1 \<and> calcularPuntualidad 20 0 30 = Some p2 \<and>
      p2 \<le> p1 \<and> p2 < p1"
  using calcularPuntualidad_decrece [of 0 10 20 30] by simp

text \<open>
  Claim C7 as stated fails: in a window of \<open>1000000\<close> ms the deliveries at \<open>1\<close> ms and
  at \<open>2\<close> ms both round to \<open>100\<close>, so the earlier one does not score strictly higher.
\<close>

theorem calcularPuntualidad_no_estricta:
  "(0::int) < 1 \<and> (1::int) < 2 \<and> (2::int) < 1000000 \<and>
   calcularPuntualidad 1 0 1000000 = Some 100 \<and>
   calcularPuntualidad 2 0 1000000 = Some 100 \<and> \<not> ((100::rat) > 100)"
  by code_simp


section \<open>Properties of the coverage report\<close>

lemma set_primeras_por_subset: "set (primeras_por f xs) \<subseteq> set xs"
  by (induction xs) auto

lemma image_primeras_por: "f ` set (primeras_por f xs) = f ` set xs"
proof (induction xs)
  case Nil
  show ?case by simp
next
  case (Cons x xs)
  have "f ` {y \<in> set (primeras_por f xs). f y \<noteq> f x} = f ` set (primeras_por f xs) - {f x}"
    by auto
  then show ?case using Cons.IH by auto
qed

lemma distinct_primeras_por: "distinct (map f (primeras_por f xs))"
proof (induction xs)
  case Nil
  show ?case by simp
next
  case (Cons x xs)
  have "distinct (map f (filter (\<lambda>y. f y \<noteq> f x) (primeras_por f xs)))"
    using Cons.IH by (rule distinct_map_filter)
  then show ?case by auto
qed

lemma fold_registrar_entrega:
  "fold registrar_entrega filas (ids, acts) =
     (ids @ map t_id (filter (\<lambda>t. t_id t \<notin> set ids) (primeras_por t_id (List.map_filter snd filas))),
      acts @ map t_nombre (filter (\<lambda>t. t_id t \<notin> set ids) (primeras_por t_id (List.map_filter snd filas))))"
proof (induction filas arbitrary: ids acts)
  case Nil
  show ?case by (simp add: List.map_filter_simps)
next
  case (Cons fila filas)
  show ?case
  proof (cases "snd fila")
    case None
    then show ?thesis
      using Cons.IH [of ids acts] by (simp add: registrar_entrega_def List.map_filter_simps)
  next
    case (Some tarea)
    show ?thesis
    proof (cases "t_id tarea \<in> set ids")
      case True
      have aux: "filter (\<lambda>x. t_id x \<noteq> t_id tarea \<and> t_id x \<notin> set ids) ys
            = filter (\<lambda>t. t_id t \<notin> set ids) ys" for ys
        using True by (intro filter_cong) auto
      show ?thesis
        using Some True Cons.IH [of ids acts]
        by (simp add: registrar_entrega_def List.map_filter_simps aux)
    next
      case False
      have aux: "filter (\<lambda>t. t_id t \<notin> set ids \<and> t_id t \<noteq> t_id tarea) ys
            = filter (\<lambda>x. t_id x \<noteq> t_id tarea \<and> t_id x \<notin> set ids) ys" for ys
        by (intro filter_cong) auto
      show ?thesis
        using Some False Cons.IH [of "ids @ [t_id tarea]" "acts @ [t_nombre tarea]"]
        by (simp add: registrar_entrega_def List.map_filter_simps aux)
    qed
  qed
qed

lemma desempeno_municipio_campos:
  "desempeno_municipio st n (i, m) =
     \<lparr>mp_municipioId = m_id m,
      mp_municipioNombre = m_nombre m,
      mp_totalTareas = n,
      mp_tareasCompletadas = length (primeras_por t_id (tareas_entregadas st (m_id m))),
      mp_porcentajeCompletado =
        (if n > 0
         then js_quot
                (of_int (Math_round
                   (js_mul (js_quot (of_nat (length (primeras_por t_id
                                                (tareas_entregadas st (m_id m)))))
                              (of_nat n)) 10000))) 100
         else 0),
      mp_actividadesCompletadas = map t_nombre (primeras_por t_id (tareas_entregadas st (m_id m))),
      mp_color = generateColor i\<rparr>"
  by (simp add: desempeno_municipio_def fold_registrar_entrega tareas_entregadas_def Let_def)

lemma en_datos_de_desempeno:
  assumes "p \<in> set (getMunicipalityPerformanceData st)"
  obtains i m where "p = desempeno_municipio st (length (tareas st)) (i, m)"
  using assms by (auto simp add: getMunicipalityPerformanceData_def Let_def)

lemma set_map_filter: "set (List.map_filter f xs) = {y. \<exists>x \<in> set xs. f x = Some y}"
  by (induction xs) (auto split: option.splits)

lemma set_tareas_entregadas: "set (tareas_entregadas st k) \<subseteq> set (tareas st)"
  by (auto simp add: tareas_entregadas_def Entrega_findAll_con_tarea_def
      set_map_filter find_Some_iff)

lemma ids_tareas_entregadas:
  "t_id ` set (tareas_entregadas st k) =
     e_tareaId ` {e \<in> set (entregas st). e_municipioId e = k \<and> e_tareaId e \<in> t_id ` set (tareas st)}"
proof (intro set_eqI iffI)
  fix x
  assume "x \<in> t_id ` set (tareas_entregadas st k)"
  then obtain e t where e: "e \<in> set (entregas st)" "e_municipioId e = k"
    and t: "find (\<lambda>t. t_id t = e_tareaId e) (tareas st) = Some t" and x: "x = t_id t"
    by (auto simp add: tareas_entregadas_def Entrega_findAll_con_tarea_def set_map_filter)
  from t have "t \<in> set (tareas st)" "t_id t = e_tareaId e"
    by (auto simp add: find_Some_iff)
  with e x show "x \<in> e_tareaId ` {e \<in> set (entregas st). e_municipioId e = k \<and>
      e_tareaId e \<in> t_id ` set (tareas st)}"
    by force
next
  fix x
  assume "x \<in> e_tareaId ` {e \<in> set (entregas st). e_municipioId e = k \<and>
      e_tareaId e \<in> t_id ` set (tareas st)}"
  then obtain e where e: "e \<in> set (entregas st)" "e_municipioId e = k" "x = e_tareaId e"
    and "e_tareaId e \<in> t_id ` set (tareas st)"
    by auto
  then have "find (\<lambda>t. t_id t = e_tareaId e) (tareas st) \<noteq> None"
    by (auto simp add: find_None_iff)
  then obtain t where t: "find (\<lambda>t. t_id t = e_tareaId e) (tareas st) = Some t"
    by auto
  then have "t_id t = e_tareaId e" by (auto simp add: find_Some_iff)
  moreover have "t \<in> set (tareas_entregadas st k)"
    using e t by (force simp add: tareas_entregadas_def Entrega_findAll_con_tarea_def
        set_map_filter)
  ultimately show "x \<in> t_id ` set (tareas_entregadas st k)"
    using e by force
qed

lemma length_primeras_por: "length (primeras_por f xs) = card (f ` set xs)"
proof -
  have "length (primeras_por f xs) = length (map f (primeras_por f xs))" by simp
  also have "\<dots> = card (set (map f (primeras_por f xs)))"
    using distinct_primeras_por [of f xs] by (simp only: distinct_card)
  also have "\<dots> = card (f ` set xs)"
    by (simp add: image_primeras_por)
  finally show ?thesis .
qed

lemma completadas_le_total:
  "length (primeras_por t_id (tareas_entregadas st k)) \<le> length (tareas st)"
proof -
  have "card (t_id ` set (tareas_entregadas st k)) \<le> card (t_id ` set (tareas st))"
    using set_tareas_entregadas [of st k] by (intro card_mono) auto
  also have "\<dots> \<le> card (set (tareas st))" by (simp add: card_image_le)
  also have "\<dots> \<le> length (tareas st)" by (rule card_length)
  finally show ?thesis by (simp add: length_primeras_por)
qed

text \<open>The percentage of \<open>a\<close> out of \<open>b\<close> as the coverage report computes it.\<close>

lemma porcentaje_de_conteos:
  fixes a b :: nat
  assumes "a \<le> b" "0 < b"
  obtains n where
    "js_quot (of_int (Math_round (js_mul (js_quot (of_nat a) (of_nat b)) 10000))) 100
       = fl (of_int n / 100)"
    "0 \<le> n" "n \<le> 10000"
    "\<bar>of_int n - of_nat a / of_nat b * 10000\<bar> \<le> (1 / 2 + 1 / 10000000000 :: rat)"
    "0 \<le> fl (of_int n / 100)" "fl (of_int n / 100) \<le> 100"
    "\<bar>fl (of_int n / 100) - of_nat a / of_nat b * 100\<bar> \<le> 1 / 200 + 1 / 1000000000000"
proof -
  define c :: rat where "c = of_nat a / of_nat b"
  define q where "q = js_quot (of_nat a) (of_nat b)"
  define p where "p = js_mul q 10000"
  have c: "0 \<le> c" "c \<le> 1" using assms by (simp_all add: c_def)
  have q: "0 \<le> q" "q \<le> 1"
    using c by (simp_all add: q_def js_quot_def c_def [symmetric] fl_nonneg fl_le_1)
  have "\<bar>fl c - c\<bar> \<le> \<bar>c\<bar> / 9007199254740992" by (rule fl_error_num)
  then have eq: "\<bar>q - c\<bar> \<le> 1 / 9007199254740992"
    using c by (simp add: q_def js_quot_def c_def [symmetric])
  have p: "0 \<le> p" "p \<le> 10000"
    using q by (simp_all add: p_def js_mul_def fl_nonneg fl_le_10000)
  have "\<bar>fl (q * 10000) - q * 10000\<bar> \<le> \<bar>q * 10000\<bar> / 9007199254740992"
    by (rule fl_error_num)
  then have ep: "\<bar>p - q * 10000\<bar> \<le> 10000 / 9007199254740992"
    using q by (simp add: p_def js_mul_def abs_mult)
  define n where "n = Math_round p"
  have n0: "0 \<le> n"
    using p(1) Math_round_mono [of 0 p] by (simp add: n_def Math_round_def)
  have "Math_round p \<le> Math_round 10000" using p(2) by (rule Math_round_mono)
  moreover have "Math_round 10000 = 10000" by code_simp
  ultimately have n1: "n \<le> 10000" by (simp add: n_def)
  have np: "of_int n \<le> p + 1 / 2" "p - 1 / 2 < of_int n"
    using Math_round_cotas [of p] by (simp_all add: n_def)
  have e1: "\<bar>of_int n - c * 10000\<bar> \<le> (1 / 2 + 1 / 10000000000 :: rat)"
    using np ep eq by linarith
  note r = centesimas [OF p]
  have e2: "\<bar>fl (of_int n / 100) - c * 100\<bar> \<le> 1 / 200 + 1 / 1000000000000"
    using r(3) ep eq unfolding js_quot_def n_def [symmetric] by linarith
  have "js_quot (of_int (Math_round (js_mul (js_quot (of_nat a) (of_nat b)) 10000))) 100
      = fl (of_int n / 100)"
    by (simp add: n_def p_def q_def js_quot_def)
  moreover have "0 \<le> fl (of_int n / 100)" "fl (of_int n / 100) \<le> 100"
    using r(1,2) by (simp_all add: js_quot_def n_def)
  ultimately show ?thesis
    using that [of n] n0 n1 e1 e2 unfolding c_def by blast
qed

text \<open>
  Claim C3, as amended. For every unit in the coverage report, \<open>porcentajeCompletado\<close>
  is \<open>0\<close> when \<open>totalTareas = 0\<close>; when \<open>totalTareas > 0\<close> it is, the service computing
  in doubles, the double nearest to \<open>n / 100\<close> for a whole number \<open>n\<close> of hundredths that
  lies within \<open>1/2 + 10^-10\<close> of \<open>tareasCompletadas / totalTareas * 10000\<close>: the exact
  percentage rounded to two decimals, except that next to a tie either neighbouring
  hundredth may come out; it is within \<open>0.005 + 10^-12\<close> of the exact percentage. It
  always lies between \<open>0\<close> and \<open>100\<close>.
\<close>

theorem porcentajeCompletado_round2:
  assumes "p \<in> set (getMunicipalityPerformanceData st)"
  shows "(mp_totalTareas p = 0 \<longrightarrow> mp_porcentajeCompletado p = 0) \<and>
         (mp_totalTareas p > 0 \<longrightarrow>
            (\<exists>n. mp_porcentajeCompletado p = fl (of_int n / 100) \<and>
               \<bar>of_int n - of_nat (mp_tareasCompletadas p) / of_nat (mp_totalTareas p) * 10000\<bar>
                 \<le> (1 / 2 + 1 / 10000000000 :: rat)) \<and>
            \<bar>mp_porcentajeCompletado p -
               of_nat (mp_tareasCompletadas p) / of_nat (mp_totalTareas p) * 100\<bar>
              \<le> 1 / 200 + 1 / 1000000000000) \<and>
         0 \<le> mp_porcentajeCompletado p \<and> mp_porcentajeCompletado p \<le> 100"
proof -
  from assms obtain i m where p: "p = desempeno_municipio st (length (tareas st)) (i, m)"
    by (rule en_datos_de_desempeno)
  define k where "k = length (primeras_por t_id (tareas_entregadas st (m_id m)))"
  have le: "k \<le> length (tareas st)"
    unfolding k_def by (rule completadas_le_total)
  show ?thesis
  proof (cases "length (tareas st) = 0")
    case True
    then show ?thesis by (simp add: p desempeno_municipio_campos)
  next
    case False
    then have pos: "0 < length (tareas st)" by simp
    from porcentaje_de_conteos [OF le pos] obtain n where n:
      "js_quot (of_int (Math_round (js_mul (js_quot (of_nat k) (of_nat (length (tareas st))))
          10000))) 100 = fl (of_int n / 100)"
      "\<bar>of_int n - of_nat k / of_nat (length (tareas st)) * 10000\<bar>
         \<le> (1 / 2 + 1 / 10000000000 :: rat)"
      "0 \<le> fl (of_int n / 100)" "fl (of_int n / 100) \<le> 100"
      "\<bar>fl (of_int n / 100) - of_nat k / of_nat (length (tareas st)) * 100\<bar>
         \<le> 1 / 200 + 1 / 1000000000000"
      by blast
    have campos: "mp_totalTareas p = length (tareas st)" "mp_tareasCompletadas p = k"
      "mp_porcentajeCompletado p = fl (of_int n / 100)"
      using pos n(1) by (simp_all add: p desempeno_municipio_campos k_def)
    show ?thesis
      using pos n(2,3,4,5) unfolding campos by blast
  qed
qed

text \<open>Unit Alpha of the small store: one of two tasks completed, \<open>50\<close> per cent.\<close>

theorem porcentajeCompletado_round2_witness:
  "desempeno_alpha \<in> set (getMunicipalityPerformanceData store_alpha) \<and>
   (\<exists>n. mp_porcentajeCompletado desempeno_alpha = fl (of_int n / 100) \<and>
      \<bar>of_int n - 1 / 2 * 10000\<bar> \<le> (1 / 2 + 1 / 10000000000 :: rat)) \<and>
   \<bar>mp_porcentajeCompletado desempeno_alpha - 1 / 2 * 100\<bar> \<le> 1 / 200 + 1 / 1000000000000 \<and>
   mp_porcentajeCompletado desempeno_alpha \<le> 100"
proof -
  have h: "desempeno_alpha \<in> set (getMunicipalityPerformanceData store_alpha)"
    by code_simp
  show ?thesis
    using h porcentajeCompletado_round2 [OF h] by (simp add: desempeno_alpha_def)
qed





lemma completadas_store_800:
  "length (primeras_por t_id (tareas_entregadas store_800 1)) = 57"
proof -
  have t: "t_id ` set (tareas store_800) = {1..800}"
    by (simp add: store_800_def image_image del: upto_rec_numeral)
  have i: "e_tareaId ` set (entregas store_800) = {1..57}"
    by (simp add: store_800_def image_image del: upto_rec_numeral)
  have "\<forall>e \<in> set (entregas store_800). e_municipioId e = 1 \<and> e_tareaId e \<in> {1..800}"
    by (simp add: store_800_def del: upto_rec_numeral)
  then have e: "{e \<in> set (entregas store_800). e_municipioId e = 1 \<and> e_tareaId e \<in> {1..800}}
      = set (entregas store_800)"
    by blast
  have "length (primeras_por t_id (tareas_entregadas store_800 1)) = card {1..57::int}"
    by (simp only: length_primeras_por ids_tareas_entregadas t e i)
  then show ?thesis by simp
qed

text \<open>
  Claim C3 as stated fails: with \<open>57\<close> of \<open>800\<close> tasks completed the exact percentage
  is \<open>7.125\<close>, which rounds half-up to \<open>7.13\<close>; the service, computing
  \<open>(57 / 800) * 10000\<close> in doubles, gets a value just below the tie and reports \<open>7.12\<close>.
\<close>

theorem porcentajeCompletado_no_es_round2:
  "map mp_totalTareas (getMunicipalityPerformanceData store_800) = [800] \<and>
   map mp_tareasCompletadas (getMunicipalityPerformanceData store_800) = [57] \<and>
   map mp_porcentajeCompletado (getMunicipalityPerformanceData store_800) = [fl (712 / 100)] \<and>
   round2 (57 / 800 * 100) = 713 / 100 \<and>
   fl (712 / 100) \<noteq> 713 / 100 \<and> fl (712 / 100) \<noteq> fl (713 / 100)"
proof -
  have m: "Municipio_findAll_nombre_ASC store_800 = [\<lparr>m_id = 1, m_nombre = ''Alpha''\<rparr>]"
    by (simp add: Municipio_findAll_nombre_ASC_def store_800_def del: upto_rec_numeral)
  have n: "length (tareas store_800) = 800"
    by (simp add: store_800_def del: upto_rec_numeral)
  have g: "getMunicipalityPerformanceData store_800 =
      [desempeno_municipio store_800 800 (0, \<lparr>m_id = 1, m_nombre = ''Alpha''\<rparr>)]"
    by (simp add: getMunicipalityPerformanceData_def m n)
  have p: "js_quot (of_int (Math_round (js_mul (js_quot 57 800) 10000))) 100 = fl (712 / 100)"
    by code_simp
  have r: "round2 (57 / 800 * 100) = 713 / 100"
    "fl (712 / 100) \<noteq> 713 / 100" "fl (712 / 100) \<noteq> fl (713 / 100)"
    by code_simp+
  show ?thesis
    using p r by (simp add: g desempeno_municipio_campos completadas_store_800)
qed


section \<open>Properties of the monthly breakdown\<close>

lemma fold_paso_division_invariante:
  assumes "fold (paso_division tareas_mes municipio) ds (dd, a, c) = (dd', a', c')"
    and "a = sum_list (map dp_tareasAsignadas dd)"
    and "c = sum_list (map dp_tareasCompletadas dd)"
    and "\<forall>d \<in> set dd. 0 < dp_tareasAsignadas d"
  shows "a' = sum_list (map dp_tareasAsignadas dd') \<and>
         c' = sum_list (map dp_tareasCompletadas dd') \<and>
         (\<forall>d \<in> set dd'. 0 < dp_tareasAsignadas d)"
  using assms
proof (induction ds arbitrary: dd a c)
  case Nil
  then show ?case by auto
next
  case (Cons d ds)
  obtain dd1 a1 c1 where paso: "paso_division tareas_mes municipio d (dd, a, c) = (dd1, a1, c1)"
    by (cases "paso_division tareas_mes municipio d (dd, a, c)") auto
  have inv: "a1 = sum_list (map dp_tareasAsignadas dd1)"
      "c1 = sum_list (map dp_tareasCompletadas dd1)"
      "\<forall>x \<in> set dd1. 0 < dp_tareasAsignadas x"
    using paso Cons.prems(2,3,4)
    by (auto simp add: paso_division_def Let_def split: if_splits)
  from Cons.prems(1) paso
  have "fold (paso_division tareas_mes municipio) ds (dd1, a1, c1) = (dd', a', c')"
    by simp
  then show ?case using inv by (rule Cons.IH)
qed

text \<open>
  Claim C5. For every unit of every monthly report, \<open>totalTareasAsignadas\<close> is the sum
  of \<open>tareasAsignadas\<close> over the unit's \<open>divisionData\<close>, \<open>totalTareasCompletadas\<close> is the
  sum of their \<open>tareasCompletadas\<close>, and every entry of \<open>divisionData\<close> has
  \<open>tareasAsignadas > 0\<close>.
\<close>

theorem totales_mensuales:
  assumes "mp \<in> set (md_municipios (getMonthlyPerformance st year month))"
  shows "mm_totalTareasAsignadas mp = sum_list (map dp_tareasAsignadas (mm_divisionData mp)) \<and>
         mm_totalTareasCompletadas mp = sum_list (map dp_tareasCompletadas (mm_divisionData mp)) \<and>
         (\<forall>d \<in> set (mm_divisionData mp). 0 < dp_tareasAsignadas d)"
proof -
  let ?tm = "Tarea_findAll_mes st year month"
  let ?ds = "Division_findAll_nombre_ASC st"
  from assms obtain m where mp: "mp = desempeno_mensual ?tm ?ds m"
    by (auto simp add: getMonthlyPerformance_def Let_def)
  obtain dd a c where f: "fold (paso_division ?tm m) ?ds ([], 0, 0) = (dd, a, c)"
    by (cases "fold (paso_division ?tm m) ?ds ([], 0, 0)") auto
  have "a = sum_list (map dp_tareasAsignadas dd) \<and>
        c = sum_list (map dp_tareasCompletadas dd) \<and>
        (\<forall>d \<in> set dd. 0 < dp_tareasAsignadas d)"
    using f by (rule fold_paso_division_invariante) simp_all
  then show ?thesis
    by (simp add: mp desempeno_mensual_def f Let_def)
qed

text \<open>
  January 2024: the division without a task in the month is left out of Alpha's
  breakdown, and the totals are those of the one division listed.
\<close>

theorem totales_mensuales_witness:
  "mensual_alpha \<in> set (md_municipios (getMonthlyPerformance store_enero 2024 1)) \<and>
   mm_totalTareasAsignadas mensual_alpha = 1 \<and> mm_totalTareasCompletadas mensual_alpha = 1 \<and>
   map dp_tareasAsignadas (mm_divisionData mensual_alpha) = [1] \<and>
   map dp_tareasCompletadas (mm_divisionData mensual_alpha) = [1]"
proof -
  have h: "mensual_alpha \<in> set (md_municipios (getMonthlyPerformance store_enero 2024 1))"
    by code_simp
  show ?thesis
    using h totales_mensuales [OF h] by (simp add: mensual_alpha_def)
qed

text \<open>
  Claim C6 fails on the code. The service ends the month at \<open>23:59:59.000\<close> of the
  last day. The task below starts in the last second of January 2024, so it belongs to
  the month window, and the service leaves it out of the month's tasks.
\<close>

theorem tarea_del_ultimo_segundo_omitida:
  "startDate 2024 1 = 1704067200000 \<and> endDate 2024 1 = 1706745599000 \<and>
   windowEnd_spec 2024 1 = 1706745599999 \<and>
   tarea_ultimo_segundo \<in> set (tareas store_ultimo_segundo) \<and>
   en_ventana_spec 2024 1 tarea_ultimo_segundo \<and>
   map fst (Tarea_findAll_mes store_ultimo_segundo 2024 1) = []"
  by code_simp

section \<open>Properties of the task lifecycle updater\<close>

lemma filter_vencida_despues:
  "filter (vencida ahora) (map (\<lambda>t. if vencida ahora t then t\<lparr>t_estado := finalizada\<rparr> else t) ts) = []"
  by (induction ts) (auto simp add: vencida_def)

lemma map_vencida_despues:
  "map (\<lambda>t. if vencida ahora t then t\<lparr>t_estado := finalizada\<rparr> else t)
     (map (\<lambda>t. if vencida ahora t then t\<lparr>t_estado := finalizada\<rparr> else t) ts) =
   map (\<lambda>t. if vencida ahora t then t\<lparr>t_estado := finalizada\<rparr> else t) ts"
  by (induction ts) (auto simp add: vencida_def)

lemma actualizarEstadoTareas_vencida:
  "actualizarEstadoTareas False ahora st =
     (None,
      st\<lparr>tareas := map (\<lambda>t. if vencida ahora t then t\<lparr>t_estado := finalizada\<rparr> else t) (tareas st)\<rparr>,
      LogHora ahora #
        (if length (filter (vencida ahora) (tareas st)) > 0
         then [LogActualizadas (length (filter (vencida ahora) (tareas st)))] else []))"
proof -
  have "(\<lambda>t. t_estado t = en_proceso \<and> t_fechaCulminacion t \<le> ahora) = vencida ahora"
    by (simp add: vencida_def fun_eq_iff)
  then show ?thesis
    by (simp add: actualizarEstadoTareas_def Tarea_update_finalizada_def)
qed

text \<open>
  Claim C8, as amended. A successful run of \<open>actualizarEstadoTareas\<close> at time \<open>ahora\<close>
  sets to \<open>finalizada\<close> exactly the tasks that are \<open>en_proceso\<close> with
  \<open>fechaCulminacion \<le> ahora\<close> and leaves every other task, and every other table, as
  it was; the number of tasks transitioned is written to the console when it is not
  zero, and the call itself returns nothing; a second run at the same time changes
  nothing and reports no transition.
\<close>

theorem actualizarEstadoTareas_transiciones:
  assumes "actualizarEstadoTareas False ahora st = (r, st', c)"
  shows "r = None \<and>
         length (tareas st') = length (tareas st) \<and>
         (\<forall>i < length (tareas st).
            (t_estado (tareas st ! i) = en_proceso \<and> t_fechaCulminacion (tareas st ! i) \<le> ahora
               \<longrightarrow> tareas st' ! i = (tareas st ! i)\<lparr>t_estado := finalizada\<rparr>) \<and>
            (\<not> (t_estado (tareas st ! i) = en_proceso \<and> t_fechaCulminacion (tareas st ! i) \<le> ahora)
               \<longrightarrow> tareas st' ! i = tareas st ! i)) \<and>
         divisiones st' = divisiones st \<and> municipios st' = municipios st \<and>
         entregas st' = entregas st \<and>
         c = LogHora ahora #
               (if length (filter (\<lambda>t. t_estado t = en_proceso \<and> t_fechaCulminacion t \<le> ahora)
                             (tareas st)) > 0
                then [LogActualizadas
                        (length (filter (\<lambda>t. t_estado t = en_proceso \<and> t_fechaCulminacion t \<le> ahora)
                                   (tareas st)))]
                else []) \<and>
         actualizarEstadoTareas False ahora st' = (None, st', [LogHora ahora])"
proof -
  let ?f = "\<lambda>t. if vencida ahora t then t\<lparr>t_estado := finalizada\<rparr> else t"
  have v: "(\<lambda>t. t_estado t = en_proceso \<and> t_fechaCulminacion t \<le> ahora) = vencida ahora"
    by (simp add: vencida_def fun_eq_iff)
  from assms have r: "r = None" and st': "st' = st\<lparr>tareas := map ?f (tareas st)\<rparr>"
    and c: "c = LogHora ahora #
        (if length (filter (vencida ahora) (tareas st)) > 0
         then [LogActualizadas (length (filter (vencida ahora) (tareas st)))] else [])"
    by (simp_all add: actualizarEstadoTareas_vencida)
  have again: "actualizarEstadoTareas False ahora st' = (None, st', [LogHora ahora])"
    by (simp add: actualizarEstadoTareas_vencida st' filter_vencida_despues map_vencida_despues)
  have pt: "\<forall>i < length (tareas st).
      (vencida ahora (tareas st ! i) \<longrightarrow> tareas st' ! i = (tareas st ! i)\<lparr>t_estado := finalizada\<rparr>) \<and>
      (\<not> vencida ahora (tareas st ! i) \<longrightarrow> tareas st' ! i = tareas st ! i)"
    by (simp add: st')
  show ?thesis
    using r c again pt unfolding v by (simp add: st' vencida_def)
qed

text \<open>
  The small store at time \<open>100\<close>, the deadline of both its tasks: both are transitioned.
\<close>

theorem actualizarEstadoTareas_transiciones_witness:
  "map t_estado (tareas store_alpha) = [en_proceso, en_proceso] \<and>
   map t_fechaCulminacion (tareas store_alpha) = [100, 100] \<and>
   map t_estado (tareas (fst (snd (actualizarEstadoTareas False 100 store_alpha)))) =
     [finalizada, finalizada] \<and>
   snd (snd (actualizarEstadoTareas False 100 store_alpha)) = [LogHora 100, LogActualizadas 2]"
proof -
  obtain r st' c where h: "actualizarEstadoTareas False 100 store_alpha = (r, st', c)"
    by (cases "actualizarEstadoTareas False 100 store_alpha") auto
  have t: "tareas store_alpha =
      [\<lparr>t_id = 1, t_nombre = ''Task 1'', t_divisionId = 1, t_fechaInicio = 0,
        t_fechaCulminacion = 100, t_estado = en_proceso\<rparr>,
       \<lparr>t_id = 2, t_nombre = ''Task 2'', t_divisionId = 1, t_fechaInicio = 0,
        t_fechaCulminacion = 100, t_estado = en_proceso\<rparr>]"
    by (simp add: store_alpha_def)
  from actualizarEstadoTareas_transiciones [OF h]
  have "length (tareas st') = 2" and "tareas st' ! 0 = (tareas store_alpha ! 0)\<lparr>t_estado := finalizada\<rparr>"
    and "tareas st' ! 1 = (tareas store_alpha ! 1)\<lparr>t_estado := finalizada\<rparr>"
    and "c = [LogHora 100, LogActualizadas 2]"
    by (simp_all add: t)
  then show ?thesis
    by (simp add: h t list_eq_iff_nth_eq less_Suc_eq numeral_2_eq_2)
qed

text \<open>
  Claim C8 as stated fails on its return value: with two tasks transitioned the call
  returns \<open>undefined\<close>, not the number \<open>2\<close>.
\<close>

theorem actualizarEstadoTareas_no_devuelve_cuenta:
  "length (filter (vencida 100) (tareas store_alpha)) = 2 \<and>
   snd (snd (actualizarEstadoTareas False 100 store_alpha)) = [LogHora 100, LogActualizadas 2] \<and>
   fst (actualizarEstadoTareas False 100 store_alpha) = None \<and>
   fst (actualizarEstadoTareas False 100 store_alpha) \<noteq> Some 2"
  by code_simp

text \<open>
  The earlier revision compared with \<open>Op.lt\<close> and left a task alone at the very instant
  of its deadline.
\<close>

lemma actualizarEstadoTareas_anterior_en_la_hora:
  "actualizarEstadoTareas_anterior False 100 store_alpha = (None, store_alpha, [])"
  by code_simp

text \<open>When the store rejects the update nothing changes; the failure is only logged.\<close>

lemma actualizarEstadoTareas_falla:
  "actualizarEstadoTareas True ahora st = (None, st, [LogHora ahora, LogError])"
  by (simp add: actualizarEstadoTareas_def)


section \<open>Properties of the comprehensive evaluation\<close>

lemma calcularPuntualidad_puntaje:
  "calcularPuntualidad (e_fechaHoraEntrega entrega) (t_fechaInicio tarea)
     (t_fechaCulminacion tarea) = Some (puntaje (tarea, entrega))"
proof -
  have "\<exists>p. calcularPuntualidad (e_fechaHoraEntrega entrega) (t_fechaInicio tarea)
      (t_fechaCulminacion tarea) = Some p"
    by (simp add: calcularPuntualidad_casos)
  then show ?thesis by (auto simp add: puntaje_def)
qed

lemma paso_entrega_campos:
  "\<exists>vt' v'. paso_entrega tarea entrega (vt, v) = Some (vt', v') \<and>
     tareasCompletadas v' = tareasCompletadas v \<and>
     totalEntregas v' = totalEntregas v \<and>
     detallesTareas v' = detallesTareas v \<and>
     sumaPuntualidad v' = js_add (sumaPuntualidad v) (puntaje (tarea, entrega)) \<and>
     sumaCalidad v' =
       foldl js_add (sumaCalidad v) (map of_int (calificaciones [(tarea, entrega)])) \<and>
     entregasCalificadas v' = entregasCalificadas v + length (calificaciones [(tarea, entrega)])"
  by (cases "e_calificacion entrega")
    (simp_all add: paso_entrega_def calcularPuntualidad_puntaje calificaciones_def Let_def)

lemma calificaciones_Cons:
  "calificaciones (p # ps) = calificaciones [p] @ calificaciones ps"
  by (cases "e_calificacion (snd p)") (simp_all add: calificaciones_def)

lemma calificaciones_append:
  "calificaciones (ps @ qs) = calificaciones ps @ calificaciones qs"
proof (induction ps)
  case Nil
  show ?case by (simp add: calificaciones_def)
next
  case (Cons p ps)
  have "calificaciones (p # (ps @ qs)) = calificaciones [p] @ calificaciones (ps @ qs)"
    by (rule calificaciones_Cons)
  moreover have "calificaciones (p # ps) = calificaciones [p] @ calificaciones ps"
    by (rule calificaciones_Cons)
  ultimately show ?case using Cons.IH by simp
qed

lemma bucle_entregas_campos:
  "\<exists>vt' v'. bucle_entregas tarea es (vt, v) = Some (vt', v') \<and>
     tareasCompletadas v' = tareasCompletadas v \<and>
     totalEntregas v' = totalEntregas v \<and>
     detallesTareas v' = detallesTareas v \<and>
     sumaPuntualidad v' = foldl js_add (sumaPuntualidad v) (map puntaje (map (Pair tarea) es)) \<and>
     sumaCalidad v' =
       foldl js_add (sumaCalidad v) (map of_int (calificaciones (map (Pair tarea) es))) \<and>
     entregasCalificadas v' = entregasCalificadas v + length (calificaciones (map (Pair tarea) es))"
proof (induction es arbitrary: vt v)
  case Nil
  show ?case by (simp add: calificaciones_def)
next
  case (Cons e es)
  obtain vt1 v1 where paso: "paso_entrega tarea e (vt, v) = Some (vt1, v1)"
    and campos1: "tareasCompletadas v1 = tareasCompletadas v"
      "totalEntregas v1 = totalEntregas v"
      "detallesTareas v1 = detallesTareas v"
      "sumaPuntualidad v1 = js_add (sumaPuntualidad v) (puntaje (tarea, e))"
      "sumaCalidad v1 = foldl js_add (sumaCalidad v) (map of_int (calificaciones [(tarea, e)]))"
      "entregasCalificadas v1 = entregasCalificadas v + length (calificaciones [(tarea, e)])"
    using paso_entrega_campos [of tarea e vt v] by blast
  from Cons.IH [of vt1 v1] obtain vt2 v2
    where resto: "bucle_entregas tarea es (vt1, v1) = Some (vt2, v2)"
    and campos2: "tareasCompletadas v2 = tareasCompletadas v1"
      "totalEntregas v2 = totalEntregas v1"
      "detallesTareas v2 = detallesTareas v1"
      "sumaPuntualidad v2 =
         foldl js_add (sumaPuntualidad v1) (map puntaje (map (Pair tarea) es))"
      "sumaCalidad v2 =
         foldl js_add (sumaCalidad v1) (map of_int (calificaciones (map (Pair tarea) es)))"
      "entregasCalificadas v2 = entregasCalificadas v1 + length (calificaciones (map (Pair tarea) es))"
    by blast
  have "bucle_entregas tarea (e # es) (vt, v) = Some (vt2, v2)"
    by (simp add: paso resto)
  moreover have "calificaciones ((tarea, e) # map (Pair tarea) es) =
      calificaciones [(tarea, e)] @ calificaciones (map (Pair tarea) es)"
    by (rule calificaciones_Cons)
  ultimately show ?case
    using campos1 campos2 by simp
qed

lemma paso_tarea_campos:
  "\<exists>v'. paso_tarea (tarea, es) v = Some v' \<and>
     tareasCompletadas v' = tareasCompletadas v + (if es = [] then 0 else 1) \<and>
     totalEntregas v' = totalEntregas v + length es \<and>
     sumaPuntualidad v' = foldl js_add (sumaPuntualidad v) (map puntaje (map (Pair tarea) es)) \<and>
     sumaCalidad v' =
       foldl js_add (sumaCalidad v) (map of_int (calificaciones (map (Pair tarea) es))) \<and>
     entregasCalificadas v' = entregasCalificadas v + length (calificaciones (map (Pair tarea) es))"
proof -
  let ?vt0 = "\<lparr>puntualidadTarea = 0, calidadTarea = 0, primeraEntrega = None,
               calificacionesCount = 0\<rparr>"
  let ?v1 = "if length es > 0
             then v\<lparr>tareasCompletadas := tareasCompletadas v + 1,
                    totalEntregas := totalEntregas v + length es\<rparr>
             else v"
  obtain vt2 v2 where bucle: "bucle_entregas tarea es (?vt0, ?v1) = Some (vt2, v2)"
    and campos: "tareasCompletadas v2 = tareasCompletadas ?v1"
      "totalEntregas v2 = totalEntregas ?v1"
      "sumaPuntualidad v2 =
         foldl js_add (sumaPuntualidad ?v1) (map puntaje (map (Pair tarea) es))"
      "sumaCalidad v2 =
         foldl js_add (sumaCalidad ?v1) (map of_int (calificaciones (map (Pair tarea) es)))"
      "entregasCalificadas v2 = entregasCalificadas ?v1 + length (calificaciones (map (Pair tarea) es))"
    using bucle_entregas_campos [of tarea es ?vt0 ?v1] by blast
  show ?thesis
  proof (cases "es = []")
    case True
    with bucle campos show ?thesis
      by (simp add: paso_tarea_def Let_def)
  next
    case False
    with bucle campos show ?thesis
      by (simp add: paso_tarea_def Let_def)
  qed
qed

lemma bucle_tareas_campos:
  "\<exists>v'. bucle_tareas filas v = Some v' \<and>
     tareasCompletadas v' = tareasCompletadas v + completadas filas \<and>
     totalEntregas v' = totalEntregas v + length (pares filas) \<and>
     sumaPuntualidad v' = foldl js_add (sumaPuntualidad v) (map puntaje (pares filas)) \<and>
     sumaCalidad v' = foldl js_add (sumaCalidad v) (map of_int (calificaciones (pares filas))) \<and>
     entregasCalificadas v' = entregasCalificadas v + length (calificaciones (pares filas))"
proof (induction filas arbitrary: v)
  case Nil
  show ?case by (simp add: completadas_def pares_def calificaciones_def)
next
  case (Cons fila filas)
  obtain tarea es where fila: "fila = (tarea, es)" by (cases fila)
  obtain v1 where paso: "paso_tarea (tarea, es) v = Some v1"
    and campos1: "tareasCompletadas v1 = tareasCompletadas v + (if es = [] then 0 else 1)"
      "totalEntregas v1 = totalEntregas v + length es"
      "sumaPuntualidad v1 =
         foldl js_add (sumaPuntualidad v) (map puntaje (map (Pair tarea) es))"
      "sumaCalidad v1 =
         foldl js_add (sumaCalidad v) (map of_int (calificaciones (map (Pair tarea) es)))"
      "entregasCalificadas v1 = entregasCalificadas v + length (calificaciones (map (Pair tarea) es))"
    using paso_tarea_campos [of tarea es v] by blast
  from Cons.IH [of v1] obtain v2 where resto: "bucle_tareas filas v1 = Some v2"
    and campos2: "tareasCompletadas v2 = tareasCompletadas v1 + completadas filas"
      "totalEntregas v2 = totalEntregas v1 + length (pares filas)"
      "sumaPuntualidad v2 = foldl js_add (sumaPuntualidad v1) (map puntaje (pares filas))"
      "sumaCalidad v2 =
         foldl js_add (sumaCalidad v1) (map of_int (calificaciones (pares filas)))"
      "entregasCalificadas v2 = entregasCalificadas v1 + length (calificaciones (pares filas))"
    by blast
  have "bucle_tareas (fila # filas) v = Some v2"
    by (simp add: fila paso resto)
  moreover have "pares (fila # filas) = map (Pair tarea) es @ pares filas"
    and "completadas (fila # filas) = (if es = [] then 0 else 1) + completadas filas"
    by (simp_all add: pares_def completadas_def fila)
  ultimately show ?case
    using campos1 campos2 by (simp add: calificaciones_append)
qed

lemma sin_entregas_sin_completadas: "pares filas = [] \<Longrightarrow> completadas filas = 0"
  by (auto simp add: pares_def completadas_def filter_empty_conv)

lemma Municipio_findByPk_None: "Municipio_findByPk st k = None \<longleftrightarrow> k \<notin> m_id ` set (municipios st)"
  by (auto simp add: Municipio_findByPk_def find_None_iff)

lemma suma_ponderada_0: "suma_ponderada 0 0 0 0 = 0"
  by (simp add: suma_ponderada_def js_add_def js_mul_def fl_0)

text \<open>What the service returns for a unit that exists, field by field.\<close>

lemma evaluacion_de_municipio:
  assumes "Municipio_findByPk st k = Some m"
  shows "\<exists>ev. getMunicipalityComprehensiveEvaluation st k fo = Inr ev \<and>
     ce_totalTareas ev = length (tareas_evaluadas st k fo) \<and>
     ce_tareasCompletadas ev = completadas (tareas_evaluadas st k fo) \<and>
     ce_totalEntregas ev = length (pares (tareas_evaluadas st k fo)) \<and>
     ce_entregasCalificadas ev = length (calificaciones (pares (tareas_evaluadas st k fo))) \<and>
     ce_porcentajeCobertura ev = round2_js (coveragePct (tareas_evaluadas st k fo)) \<and>
     ce_promedioPuntualidad ev = round2_js (avgPunctualityScore (tareas_evaluadas st k fo)) \<and>
     ce_promedioCalidad ev = round2_js (avgQuality (tareas_evaluadas st k fo)) \<and>
     ce_promedioEntregasPorTarea ev = round2_js (avgQuantity (tareas_evaluadas st k fo)) \<and>
     (pares (tareas_evaluadas st k fo) = [] \<longrightarrow> ce_porcentajePuntualidad ev = 0) \<and>
     ce_puntuacionFinal ev =
       round2_js (suma_ponderada (coveragePct (tareas_evaluadas st k fo))
                    (avgPunctualityScore (tareas_evaluadas st k fo))
                    (avgQuality (tareas_evaluadas st k fo))
                    (avgQuantity (tareas_evaluadas st k fo)))"
proof -
  let ?filas = "tareas_evaluadas st k fo"
  let ?v0 = "\<lparr>tareasCompletadas = 0, entregasPuntuales = 0, entregasTardias = 0,
              totalEntregas = 0, sumaPuntualidad = 0, sumaCalidad = 0,
              entregasCalificadas = 0, detallesTareas = []\<rparr>"
  obtain v where bucle: "bucle_tareas ?filas ?v0 = Some v"
    and campos: "tareasCompletadas v = completadas ?filas"
      "totalEntregas v = length (pares ?filas)"
      "sumaPuntualidad v = suma_doble (map puntaje (pares ?filas))"
      "sumaCalidad v = suma_doble (map of_int (calificaciones (pares ?filas)))"
      "entregasCalificadas v = length (calificaciones (pares ?filas))"
    using bucle_tareas_campos [of ?filas ?v0] by (auto simp add: suma_doble_def)
  show ?thesis
    by (simp add: getMunicipalityComprehensiveEvaluation_def assms bucle campos Let_def
        coveragePct_def avgPunctualityScore_def avgQuality_def avgQuantity_def
        suma_ponderada_def round2_js_0)
qed


text \<open>
  Claim C1, as amended. For every unit in the store and any filter, the evaluation
  returns a result whose \<open>puntuacionFinal\<close> is \<open>Math.round(s * 100) / 100\<close> for the
  weighted sum \<open>s = coveragePct * 0.40 + avgPunctualityScore * 0.30 + avgQuality * 0.20 +
  min (avgQuantity * 20) 100 * 0.10\<close>, where the four aggregates are the unit's metrics
  before their own rounding and every operation is the double-precision one; each
  aggregate is reported, rounded the same way, in its own field; the quantity term is
  capped at \<open>100\<close> before weighting.
\<close>

theorem puntuacionFinal_ponderada:
  assumes "k \<in> m_id ` set (municipios st)"
  shows "\<exists>ev. getMunicipalityComprehensiveEvaluation st k fo = Inr ev \<and>
     ce_puntuacionFinal ev =
       round2_js (suma_ponderada (coveragePct (tareas_evaluadas st k fo))
                    (avgPunctualityScore (tareas_evaluadas st k fo))
                    (avgQuality (tareas_evaluadas st k fo))
                    (avgQuantity (tareas_evaluadas st k fo))) \<and>
     ce_porcentajeCobertura ev = round2_js (coveragePct (tareas_evaluadas st k fo)) \<and>
     ce_promedioPuntualidad ev = round2_js (avgPunctualityScore (tareas_evaluadas st k fo)) \<and>
     ce_promedioCalidad ev = round2_js (avgQuality (tareas_evaluadas st k fo)) \<and>
     ce_promedioEntregasPorTarea ev = round2_js (avgQuantity (tareas_evaluadas st k fo))"
proof -
  from assms obtain m where "Municipio_findByPk st k = Some m"
    using Municipio_findByPk_None [of st k] by auto
  from evaluacion_de_municipio [OF this, of fo] show ?thesis by blast
qed

text \<open>
  Alpha in the three-task store: coverage a third, one late delivery, score \<open>15.33\<close>.
\<close>

lemma agregados_tercio:
  "coveragePct (tareas_evaluadas store_tercio 1 None) = js_mul (js_quot 1 3) 100"
  "avgPunctualityScore (tareas_evaluadas store_tercio 1 None) = 0"
  "avgQuality (tareas_evaluadas store_tercio 1 None) = 0"
  "avgQuantity (tareas_evaluadas store_tercio 1 None) = 1"
  by code_simp+

lemma evaluacion_tercio:
  "\<exists>ev. getMunicipalityComprehensiveEvaluation store_tercio 1 None = Inr ev \<and>
     ce_porcentajeCobertura ev = fl (3333 / 100) \<and> ce_promedioPuntualidad ev = 0 \<and>
     ce_promedioCalidad ev = 0 \<and> ce_promedioEntregasPorTarea ev = 1 \<and>
     ce_puntuacionFinal ev = fl (1533 / 100)"
proof -
  have m: "Municipio_findByPk store_tercio 1 = Some \<lparr>m_id = 1, m_nombre = ''Alpha''\<rparr>"
    by (simp add: Municipio_findByPk_def store_tercio_def)
  have r: "round2_js (js_mul (js_quot 1 3) 100) = fl (3333 / 100)"
    "round2_js 1 = 1"
    "round2_js (suma_ponderada (js_mul (js_quot 1 3) 100) 0 0 1) = fl (1533 / 100)"
    by code_simp+
  from evaluacion_de_municipio [OF m, of None] show ?thesis
    unfolding agregados_tercio r round2_js_0 by blast
qed

theorem puntuacionFinal_ponderada_witness:
  "1 \<in> m_id ` set (municipios store_tercio) \<and>
   map_sum id ce_puntuacionFinal (getMunicipalityComprehensiveEvaluation store_tercio 1 None) =
     Inr (round2_js (suma_ponderada (js_mul (js_quot 1 3) 100) 0 0 1))"
proof -
  have h: "1 \<in> m_id ` set (municipios store_tercio)"
    by (simp add: store_tercio_def)
  show ?thesis
    using h puntuacionFinal_ponderada [OF h, of None] unfolding agregados_tercio by auto
qed

text \<open>
  Claim C1 as stated fails: for Alpha in the three-task store the service reports
  coverage \<open>33.33\<close>, punctuality \<open>0\<close>, quality \<open>0\<close>, quantity \<open>1\<close> and the score
  \<open>15.33\<close>, while the weighted sum of the reported metrics is \<open>15.332\<close>, whether it is
  taken exactly or in doubles.
\<close>

theorem puntuacionFinal_no_es_la_suma:
  "map_sum id ce_porcentajeCobertura
     (getMunicipalityComprehensiveEvaluation store_tercio 1 None) = Inr (fl (3333 / 100)) \<and>
   map_sum id ce_promedioPuntualidad
     (getMunicipalityComprehensiveEvaluation store_tercio 1 None) = Inr 0 \<and>
   map_sum id ce_promedioCalidad
     (getMunicipalityComprehensiveEvaluation store_tercio 1 None) = Inr 0 \<and>
   map_sum id ce_promedioEntregasPorTarea
     (getMunicipalityComprehensiveEvaluation store_tercio 1 None) = Inr 1 \<and>
   map_sum id ce_puntuacionFinal
     (getMunicipalityComprehensiveEvaluation store_tercio 1 None) = Inr (fl (1533 / 100)) \<and>
   fl (1533 / 100) \<noteq>
     fl (3333 / 100) * (40 / 100) + 0 * (30 / 100) + 0 * (20 / 100) +
     min (1 * 20) 100 * (10 / 100) \<and>
   fl (1533 / 100) \<noteq> suma_ponderada (fl (3333 / 100)) 0 0 1 \<and>
   suma_ponderada (fl (3333 / 100)) 0 0 1 = fl (15332 / 1000)"
proof -
  have "fl (1533 / 100) \<noteq>
      fl (3333 / 100) * (40 / 100) + 0 * (30 / 100) + 0 * (20 / 100) +
      min (1 * 20) 100 * (10 / 100)"
    and "fl (1533 / 100) \<noteq> suma_ponderada (fl (3333 / 100)) 0 0 1"
    and "suma_ponderada (fl (3333 / 100)) 0 0 1 = fl (15332 / 1000)"
    by code_simp+
  with evaluacion_tercio show ?thesis by auto
qed

text \<open>
  Two figures of the service on ties: a single task running from \<open>0\<close> to \<open>10000\<close> with
  one unrated delivery at \<open>45\<close> scores \<open>71.86\<close> (the exact weighted sum is \<open>71.865\<close>),
  and \<open>41\<close> deliveries over \<open>40\<close> tasks are reported as \<open>1.02\<close> per task (exactly
  \<open>1.025\<close>).
\<close>

lemma puntuacionFinal_una_tarea:
  "map_sum id ce_puntuacionFinal
     (getMunicipalityComprehensiveEvaluation store_una_tarea 1 None) = Inr (fl (7186 / 100))"
proof -
  have m: "Municipio_findByPk store_una_tarea 1 = Some \<lparr>m_id = 1, m_nombre = ''Alpha''\<rparr>"
    by (simp add: Municipio_findByPk_def store_una_tarea_def)
  have a: "coveragePct (tareas_evaluadas store_una_tarea 1 None) = 100"
    "avgPunctualityScore (tareas_evaluadas store_una_tarea 1 None) = fl (9955 / 100)"
    "avgQuality (tareas_evaluadas store_una_tarea 1 None) = 0"
    "avgQuantity (tareas_evaluadas store_una_tarea 1 None) = 1"
    by code_simp+
  have r: "round2_js (suma_ponderada 100 (fl (9955 / 100)) 0 1) = fl (7186 / 100)"
    by code_simp
  from evaluacion_de_municipio [OF m, of None] show ?thesis
    unfolding a r by auto
qed

lemma promedio_41_de_40: "round2_js (js_quot 41 40) = fl (102 / 100)"
  by code_simp

text \<open>
  Claim C9, as amended. The evaluation fails, with an error whose message names the
  unit id, exactly when no unit with that id is in the store. For a unit that exists it
  always returns a result: with an empty task scope or no delivery in scope, coverage,
  both punctuality figures, quality, quantity and the final score are all \<open>0\<close>; with
  deliveries but no quality rating, the quality average is \<open>0\<close>.
\<close>

theorem evaluacion_errores_y_ceros:
  "(k \<notin> m_id ` set (municipios st) \<longrightarrow>
      getMunicipalityComprehensiveEvaluation st k fo =
        Inl (Error (''Municipio con ID '' @ toString k @ '' no encontrado''))) \<and>
   (k \<in> m_id ` set (municipios st) \<longrightarrow>
      (\<exists>ev. getMunicipalityComprehensiveEvaluation st k fo = Inr ev \<and>
         (tareas_evaluadas st k fo = [] \<or> pares (tareas_evaluadas st k fo) = [] \<longrightarrow>
            ce_porcentajeCobertura ev = 0 \<and> ce_porcentajePuntualidad ev = 0 \<and>
            ce_promedioPuntualidad ev = 0 \<and> ce_promedioCalidad ev = 0 \<and>
            ce_promedioEntregasPorTarea ev = 0 \<and> ce_puntuacionFinal ev = 0) \<and>
         (calificaciones (pares (tareas_evaluadas st k fo)) = [] \<longrightarrow>
            ce_promedioCalidad ev = 0)))"
proof (intro conjI impI)
  assume "k \<notin> m_id ` set (municipios st)"
  then have "Municipio_findByPk st k = None"
    by (simp add: Municipio_findByPk_None)
  then show "getMunicipalityComprehensiveEvaluation st k fo =
      Inl (Error (''Municipio con ID '' @ toString k @ '' no encontrado''))"
    by (simp add: getMunicipalityComprehensiveEvaluation_def)
next
  let ?filas = "tareas_evaluadas st k fo"
  assume "k \<in> m_id ` set (municipios st)"
  then obtain m where "Municipio_findByPk st k = Some m"
    using Municipio_findByPk_None [of st k] by auto
  from evaluacion_de_municipio [OF this, of fo]
  obtain ev where ev: "getMunicipalityComprehensiveEvaluation st k fo = Inr ev"
    and campos: "ce_porcentajeCobertura ev = round2_js (coveragePct ?filas)"
      "ce_promedioPuntualidad ev = round2_js (avgPunctualityScore ?filas)"
      "ce_promedioCalidad ev = round2_js (avgQuality ?filas)"
      "ce_promedioEntregasPorTarea ev = round2_js (avgQuantity ?filas)"
      "pares ?filas = [] \<longrightarrow> ce_porcentajePuntualidad ev = 0"
      "ce_puntuacionFinal ev =
         round2_js (suma_ponderada (coveragePct ?filas) (avgPunctualityScore ?filas)
                      (avgQuality ?filas) (avgQuantity ?filas))"
    by blast
  have vacio: "?filas = [] \<Longrightarrow> pares ?filas = []"
    by (simp add: pares_def)
  have ceros: "coveragePct ?filas = 0 \<and> avgPunctualityScore ?filas = 0 \<and>
      avgQuality ?filas = 0 \<and> avgQuantity ?filas = 0"
    if "pares ?filas = []"
    using that sin_entregas_sin_completadas [OF that]
    by (simp add: coveragePct_def avgPunctualityScore_def avgQuality_def avgQuantity_def
        calificaciones_def js_mul_def js_quot_def fl_0)
  have "ce_porcentajeCobertura ev = 0 \<and> ce_porcentajePuntualidad ev = 0 \<and>
      ce_promedioPuntualidad ev = 0 \<and> ce_promedioCalidad ev = 0 \<and>
      ce_promedioEntregasPorTarea ev = 0 \<and> ce_puntuacionFinal ev = 0"
    if "?filas = [] \<or> pares ?filas = []"
  proof -
    from that vacio have p: "pares ?filas = []" by blast
    show ?thesis using campos p ceros [OF p] by (simp add: round2_js_0 suma_ponderada_0)
  qed
  moreover have "ce_promedioCalidad ev = 0" if "calificaciones (pares ?filas) = []"
    using that campos by (simp add: avgQuality_def round2_js_0)
  ultimately show "\<exists>ev. getMunicipalityComprehensiveEvaluation st k fo = Inr ev \<and>
      (?filas = [] \<or> pares ?filas = [] \<longrightarrow>
         ce_porcentajeCobertura ev = 0 \<and> ce_porcentajePuntualidad ev = 0 \<and>
         ce_promedioPuntualidad ev = 0 \<and> ce_promedioCalidad ev = 0 \<and>
         ce_promedioEntregasPorTarea ev = 0 \<and> ce_puntuacionFinal ev = 0) \<and>
      (calificaciones (pares ?filas) = [] \<longrightarrow> ce_promedioCalidad ev = 0)"
    using ev by blast
qed

text \<open>
  In the three-task store: unit 99 does not exist; restricted to division 5 the scope of
  Alpha is empty; unrestricted, Alpha has a delivery but no rating.
\<close>

theorem evaluacion_errores_y_ceros_witness:
  "getMunicipalityComprehensiveEvaluation store_tercio 99 None =
     Inl (Error ''Municipio con ID 99 no encontrado'') \<and>
   map_sum id ce_puntuacionFinal
     (getMunicipalityComprehensiveEvaluation store_tercio 1 (Some solo_division_5)) = Inr 0 \<and>
   map_sum id ce_porcentajeCobertura
     (getMunicipalityComprehensiveEvaluation store_tercio 1 (Some solo_division_5)) = Inr 0 \<and>
   map_sum id ce_promedioCalidad
     (getMunicipalityComprehensiveEvaluation store_tercio 1 None) = Inr 0"
proof -
  have no: "99 \<notin> m_id ` set (municipios store_tercio)"
    and si: "1 \<in> m_id ` set (municipios store_tercio)"
    by (simp_all add: store_tercio_def)
  have msg: "''Municipio con ID '' @ toString 99 @ '' no encontrado'' =
      ''Municipio con ID 99 no encontrado''"
    by code_simp
  have vacio: "tareas_evaluadas store_tercio 1 (Some solo_division_5) = []"
    by code_simp
  have sin_nota: "calificaciones (pares (tareas_evaluadas store_tercio 1 None)) = []"
    by code_simp
  show ?thesis
    using evaluacion_errores_y_ceros [of 99 store_tercio None]
      evaluacion_errores_y_ceros [of 1 store_tercio "Some solo_division_5"]
      evaluacion_errores_y_ceros [of 1 store_tercio None]
      no si msg vacio sin_nota
    by auto
qed

text \<open>
  Claim C9 as stated fails for a unit with deliveries and no quality rating: Alpha in the
  three-task store has no rating, and its coverage and final score are not \<open>0\<close>.
\<close>

theorem sin_calificaciones_no_todo_cero:
  "1 \<in> set (map m_id (municipios store_tercio)) \<and>
   map (e_calificacion \<circ> snd) (pares (tareas_evaluadas store_tercio 1 None)) = [None] \<and>
   map_sum id ce_promedioCalidad
     (getMunicipalityComprehensiveEvaluation store_tercio 1 None) = Inr 0 \<and>
   map_sum id ce_porcentajeCobertura
     (getMunicipalityComprehensiveEvaluation store_tercio 1 None) = Inr (fl (3333 / 100)) \<and>
   map_sum id ce_promedioEntregasPorTarea
     (getMunicipalityComprehensiveEvaluation store_tercio 1 None) = Inr 1 \<and>
   map_sum id ce_puntuacionFinal
     (getMunicipalityComprehensiveEvaluation store_tercio 1 None) = Inr (fl (1533 / 100)) \<and>
   fl (3333 / 100) \<noteq> 0 \<and> fl (1533 / 100) \<noteq> 0"
proof -
  have "1 \<in> set (map m_id (municipios store_tercio))"
    and "map (e_calificacion \<circ> snd) (pares (tareas_evaluadas store_tercio 1 None)) = [None]"
    and "fl (3333 / 100) \<noteq> 0" and "fl (1533 / 100) \<noteq> 0"
    by code_simp+
  with evaluacion_tercio show ?thesis by auto
qed

end
